theory Spec2Isabelle
  imports Complex_Main "HOL-Library.AList"
begin

section \<open>Strings and JavaScript values\<close>

text \<open>
  JavaScript strings are modelled as \<^typ>\<open>string\<close>. The characters that cannot be
  written inside a string literal get a name.
\<close>

abbreviation LF :: char where "LF \<equiv> CHR 0x0A"
abbreviation BSL :: char where "BSL \<equiv> CHR 0x5C"
abbreviation DQ :: char where "DQ \<equiv> CHR 0x22"

text \<open>\<^verbatim>\<open>String(n)\<close> for a natural number and for an integer: decimal digits.\<close>

fun string_of_nat :: "nat \<Rightarrow> string" where
  "string_of_nat n =
     (if n < 10 then [''0123456789'' ! n]
      else string_of_nat (n div 10) @ [''0123456789'' ! (n mod 10)])"

declare string_of_nat.simps [simp del]

definition string_of_int :: "int \<Rightarrow> string" where
  "string_of_int i = (if i < 0 then ''-'' @ string_of_nat (nat (- i)) else string_of_nat (nat i))"

text \<open>\<^verbatim>\<open>a || b\<close> on strings: the empty string is falsy.\<close>

definition or_str :: "string \<Rightarrow> string \<Rightarrow> string" where
  "or_str a b = (if a = [] then b else a)"

text \<open>\<^verbatim>\<open>a || b\<close> where \<^verbatim>\<open>a\<close> is a string or \<^verbatim>\<open>null\<close>.\<close>

definition or_null :: "string option \<Rightarrow> string \<Rightarrow> string" where
  "or_null a b = (case a of None \<Rightarrow> b | Some s \<Rightarrow> or_str s b)"

text \<open>Truthiness of a string or \<^verbatim>\<open>null\<close>, as in \<^verbatim>\<open>if (CPP.STATEMENT_PREFIX)\<close>.\<close>

definition truthy :: "string option \<Rightarrow> bool" where
  "truthy a = (case a of None \<Rightarrow> False | Some s \<Rightarrow> s \<noteq> [])"

text \<open>\<^verbatim>\<open>'' + a\<close> where \<^verbatim>\<open>a\<close> is a string or \<^verbatim>\<open>null\<close>.\<close>

definition str_of_null :: "string option \<Rightarrow> string" where
  "str_of_null a = (case a of None \<Rightarrow> ''null'' | Some s \<Rightarrow> s)"

text \<open>\<^verbatim>\<open>xs.join(sep)\<close>.\<close>

fun join :: "string \<Rightarrow> string list \<Rightarrow> string" where
  "join sep [] = []"
| "join sep [x] = x"
| "join sep (x # y # ys) = x @ sep @ join sep (y # ys)"

text \<open>\<^verbatim>\<open>s.replace(/c/g, r)\<close> for a single character \<^verbatim>\<open>c\<close>.\<close>

definition replace_all :: "char \<Rightarrow> string \<Rightarrow> string \<Rightarrow> string" where
  "replace_all c r s = concat (map (\<lambda>x. if x = c then r else [x]) s)"

text \<open>The character classes \<^verbatim>\<open>\w\<close>, \<^verbatim>\<open>\d\<close> and \<^verbatim>\<open>\s\<close> (on ASCII).\<close>

definition is_digit :: "char \<Rightarrow> bool" where
  "is_digit c = (c \<in> set ''0123456789'')"

definition is_word_char :: "char \<Rightarrow> bool" where
  "is_word_char c =
     (c \<in> set ''abcdefghijklmnopqrstuvwxyzABCDEFGHIJKLMNOPQRSTUVWXYZ0123456789_'')"

definition is_space :: "char \<Rightarrow> bool" where
  "is_space c = (c \<in> set [CHR '' '', CHR 0x09, LF, CHR 0x0B, CHR 0x0C, CHR 0x0D])"

text \<open>\<^verbatim>\<open>s.match(/^\w+$/)\<close>, as a truth value.\<close>

definition match_word :: "string \<Rightarrow> bool" where
  "match_word s = (s \<noteq> [] \<and> list_all is_word_char s)"

text \<open>
  Modelled from the spec: \<^verbatim>\<open>Blockly.utils.string.isNumber\<close> is defined in Blockly's
  core, outside these generator files. The spec calls the strings it accepts ``a literal
  number'': optional blanks, an optional minus sign, digits, an optional fraction, optional
  blanks.
\<close>

definition isNumber :: "string \<Rightarrow> bool" where
  "isNumber str =
     (let t = dropWhile is_space str;
          u = (if t \<noteq> [] \<and> hd t = CHR ''-'' then tl t else t);
          r = dropWhile is_digit u
      in takeWhile is_digit u \<noteq> [] \<and>
         (if r \<noteq> [] \<and> hd r = CHR ''.''
          then takeWhile is_digit (tl r) \<noteq> [] \<and> list_all is_space (dropWhile is_digit (tl r))
          else list_all is_space r))"

text \<open>
  \<^verbatim>\<open>parseInt(str, 10)\<close> on a string that \<^const>\<open>isNumber\<close> accepts: the integer
  part, with its sign; a fraction is cut off.
\<close>

definition digit_value :: "char \<Rightarrow> nat" where
  "digit_value c = length (takeWhile (\<lambda>d. d \<noteq> c) ''0123456789'')"

definition parseInt :: "string \<Rightarrow> int" where
  "parseInt str =
     (let t = dropWhile is_space str;
          neg = (t \<noteq> [] \<and> hd t = CHR ''-'');
          u = (if neg then tl t else t);
          n = foldl (\<lambda>a d. 10 * a + digit_value d) 0 (takeWhile is_digit u)
      in if neg then - int n else int n)"


section \<open>Operator precedence\<close>

text \<open>The \<^verbatim>\<open>CPP.ORDER_*\<close> table of \<^verbatim>\<open>generators/cpp.js\<close>; a lower number binds tighter.\<close>

type_synonym order = rat

definition ORDER_ATOMIC :: order where "ORDER_ATOMIC = 0"
definition ORDER_SCOPE :: order where "ORDER_SCOPE = 1 / 10"
definition ORDER_UNARY_POSTFIX :: order where "ORDER_UNARY_POSTFIX = 1"
definition ORDER_UNARY_PREFIX :: order where "ORDER_UNARY_PREFIX = 2"
definition ORDER_PTR_TO_MEM :: order where "ORDER_PTR_TO_MEM = 3"
definition ORDER_MULTIPLICATIVE :: order where "ORDER_MULTIPLICATIVE = 4"
definition ORDER_ADDITIVE :: order where "ORDER_ADDITIVE = 5"
definition ORDER_SHIFT :: order where "ORDER_SHIFT = 6"
definition ORDER_RELATIONAL :: order where "ORDER_RELATIONAL = 7"
definition ORDER_EQUALITY :: order where "ORDER_EQUALITY = 8"
definition ORDER_BITWISE_AND :: order where "ORDER_BITWISE_AND = 9"
definition ORDER_BITWISE_XOR :: order where "ORDER_BITWISE_XOR = 10"
definition ORDER_BITWISE_OR :: order where "ORDER_BITWISE_OR = 11"
definition ORDER_LOGICAL_AND :: order where "ORDER_LOGICAL_AND = 12"
definition ORDER_LOGICAL_OR :: order where "ORDER_LOGICAL_OR = 13"
definition ORDER_CONDITIONAL :: order where "ORDER_CONDITIONAL = 14"
definition ORDER_ASSIGNMENT :: order where "ORDER_ASSIGNMENT = 14"
definition ORDER_COMMA :: order where "ORDER_COMMA = 15"
definition ORDER_NONE :: order where "ORDER_NONE = 99"

lemmas ORDER_defs =
  ORDER_ATOMIC_def ORDER_SCOPE_def ORDER_UNARY_POSTFIX_def ORDER_UNARY_PREFIX_def
  ORDER_PTR_TO_MEM_def ORDER_MULTIPLICATIVE_def ORDER_ADDITIVE_def ORDER_SHIFT_def
  ORDER_RELATIONAL_def ORDER_EQUALITY_def ORDER_BITWISE_AND_def ORDER_BITWISE_XOR_def
  ORDER_BITWISE_OR_def ORDER_LOGICAL_AND_def ORDER_LOGICAL_OR_def ORDER_CONDITIONAL_def
  ORDER_ASSIGNMENT_def ORDER_COMMA_def ORDER_NONE_def


section \<open>Blocks and the driver\<close>

text \<open>
  A block as the emission rules read it. The children are emitted by the driver before a
  rule uses their text, so a block records, for each connected value slot, the pair
  (text, order) that the child's rule produced, and for each connected statement slot the
  text of the chain plugged into it. A slot that is absent from the map has nothing
  connected. \<open>surroundLoop\<close> is the enclosing loop block, given by its id and its
  \<^verbatim>\<open>suppressPrefixSuffix\<close> flag; \<open>oneBasedIndex\<close> is the workspace option.
\<close>

record block =
  blockId :: string
  fieldValue :: "string \<rightharpoonup> string"
  valueInput :: "string \<rightharpoonup> string \<times> order"
  statementInput :: "string \<rightharpoonup> string"
  inputList :: "string list"
  surroundLoop :: "(string \<times> bool) option"
  oneBasedIndex :: bool

text \<open>\<^verbatim>\<open>block.getInput(name)\<close>, as a truth value.\<close>

definition getInput :: "block \<Rightarrow> string \<Rightarrow> bool" where
  "getInput b name = (name \<in> set (inputList b))"

text \<open>
  Modelled from the spec: \<^verbatim>\<open>Generator.valueToCode\<close> is defined in Blockly's core,
  outside these generator files. For an unconnected slot it yields the empty string, which
  the caller's \<^verbatim>\<open>|| default\<close> replaces; for a connected one it yields the child's
  text, unchanged if the child's order is at most the required one and in parentheses
  otherwise.
\<close>

definition valueToCode :: "block \<Rightarrow> string \<Rightarrow> order \<Rightarrow> string" where
  "valueToCode b name outerOrder =
     (case valueInput b name of
        None \<Rightarrow> []
      | Some (code, innerOrder) \<Rightarrow>
          if innerOrder \<le> outerOrder then code else ''('' @ code @ '')'')"

text \<open>
  Modelled from the spec: \<^verbatim>\<open>Generator.statementToCode\<close> is defined in Blockly's
  core, outside these generator files. It yields the text of the chain plugged into the
  slot, or the empty string.
\<close>

definition statementToCode :: "block \<Rightarrow> string \<Rightarrow> string" where
  "statementToCode b name = (case statementInput b name of None \<Rightarrow> [] | Some code \<Rightarrow> code)"


section \<open>Index adjustment: \<^verbatim>\<open>CPP.getAdjusted\<close>\<close>

text \<open>The result is a number (a folded constant) or a piece of code.\<close>

datatype adjusted = AtNumber int | AtCode string

text \<open>\<^verbatim>\<open>opt_order || this.ORDER_NONE\<close>: an absent order and the order 0 both read as NONE.\<close>

definition order_or_none :: "order option \<Rightarrow> order" where
  "order_or_none opt_order =
     (case opt_order of None \<Rightarrow> ORDER_NONE | Some r \<Rightarrow> if r = 0 then ORDER_NONE else r)"

text \<open>The delta after \<^verbatim>\<open>opt_delta || 0\<close> and the decrement under one-based indexing.\<close>

definition adjusted_delta :: "block \<Rightarrow> int option \<Rightarrow> int" where
  "adjusted_delta b opt_delta =
     (let delta = (case opt_delta of None \<Rightarrow> 0 | Some d \<Rightarrow> d)
      in if oneBasedIndex b then delta - 1 else delta)"

text \<open>
  The pair (outerOrder, innerOrder) chosen by the first conditional of the function;
  innerOrder stays \<^verbatim>\<open>undefined\<close> when nothing is adjusted.
\<close>

definition adjusted_orders :: "int \<Rightarrow> bool \<Rightarrow> order \<Rightarrow> order \<times> order option" where
  "adjusted_orders delta opt_negate ord =
     (if delta \<noteq> 0 then (ORDER_ADDITIVE, Some ORDER_ADDITIVE)
      else if opt_negate then (ORDER_UNARY_PREFIX, Some ORDER_UNARY_PREFIX)
      else (ord, None))"

text \<open>The code for a dynamic index, before the final parentheses.\<close>

definition adjust_in_code :: "string \<Rightarrow> int \<Rightarrow> bool \<Rightarrow> string" where
  "adjust_in_code atv delta opt_negate =
     (let at1 = (if delta > 0 then atv @ '' + '' @ string_of_int delta
                 else if delta < 0 then atv @ '' - '' @ string_of_int (- delta)
                 else atv)
      in if opt_negate then (if delta \<noteq> 0 then ''-('' @ at1 @ '')'' else ''-'' @ at1)
         else at1)"

text \<open>
  \<^verbatim>\<open>if (innerOrder && order >= innerOrder)\<close>, after both were passed through
  \<^verbatim>\<open>Math.floor\<close>; an undefined innerOrder gives NaN, which is falsy.
\<close>

definition needs_parens :: "order option \<Rightarrow> order \<Rightarrow> bool" where
  "needs_parens innerOrder ord =
     (case innerOrder of
        None \<Rightarrow> False
      | Some i \<Rightarrow> \<lfloor>i\<rfloor> \<noteq> 0 \<and> \<lfloor>ord\<rfloor> \<ge> \<lfloor>i\<rfloor>)"

definition getAdjusted ::
    "block \<Rightarrow> string \<Rightarrow> int option \<Rightarrow> bool \<Rightarrow> order option \<Rightarrow> adjusted" where
  "getAdjusted b atId opt_delta opt_negate opt_order =
     (let ord = order_or_none opt_order;
          delta = adjusted_delta b opt_delta;
          defaultAtIndex = (if oneBasedIndex b then ''1'' else ''0'');
          (outerOrder, innerOrder) = adjusted_orders delta opt_negate ord;
          atv = or_str (valueToCode b atId outerOrder) defaultAtIndex
      in if isNumber atv then
           (let n = parseInt atv + delta in AtNumber (if opt_negate then - n else n))
         else
           (let code = adjust_in_code atv delta opt_negate
            in AtCode (if needs_parens innerOrder ord then ''('' @ code @ '')'' else code)))"

text \<open>A block for examples: nothing connected, no fields.\<close>

definition empty_block :: block where
  "empty_block =
     \<lparr>blockId = ''b0'', fieldValue = Map.empty, valueInput = Map.empty,
      statementInput = Map.empty, inputList = [], surroundLoop = None,
      oneBasedIndex = False\<rparr>"

text \<open>
  A block with one value slot \<open>AT\<close>, holding a child that produced the given text and
  order.
\<close>

definition index_block :: "bool \<Rightarrow> string \<Rightarrow> order \<Rightarrow> block" where
  "index_block one_based code ord =
     empty_block\<lparr>valueInput := [''AT'' \<mapsto> (code, ord)], oneBasedIndex := one_based\<rparr>"

section \<open>Facts about strings\<close>

lemma string_of_nat_digit: "n < 10 \<Longrightarrow> string_of_nat n = [''0123456789'' ! n]"
  by (subst string_of_nat.simps) simp

lemma string_of_nat_step:
  "\<not> n < 10 \<Longrightarrow> string_of_nat n = string_of_nat (n div 10) @ [''0123456789'' ! (n mod 10)]"
  by (subst string_of_nat.simps) simp

lemma string_of_nat_nonempty: "string_of_nat n \<noteq> []"
  by (subst string_of_nat.simps) simp

lemma digit_nth_inj:
  "a < 10 \<Longrightarrow> b < 10 \<Longrightarrow> ''0123456789'' ! a = ''0123456789'' ! b \<Longrightarrow> a = (b::nat)"
  by (simp add: nth_eq_iff_index_eq)

lemma string_of_nat_inj: "string_of_nat m = string_of_nat n \<Longrightarrow> m = n"
proof (induction m arbitrary: n rule: string_of_nat.induct)
  case (1 m)
  show ?case
  proof (cases "m < 10")
    case small_m: True
    show ?thesis
    proof (cases "n < 10")
      case True
      with small_m "1.prems" show ?thesis
        by (auto simp: string_of_nat_digit dest: digit_nth_inj)
    next
      case False
      with small_m "1.prems" have "string_of_nat (n div 10) = []"
        by (simp add: string_of_nat_digit string_of_nat_step)
      then show ?thesis by (simp add: string_of_nat_nonempty)
    qed
  next
    case big_m: False
    show ?thesis
    proof (cases "n < 10")
      case True
      with big_m "1.prems" have "string_of_nat (m div 10) = []"
        by (simp add: string_of_nat_digit string_of_nat_step)
      then show ?thesis by (simp add: string_of_nat_nonempty)
    next
      case False
      with big_m "1.prems" have hi: "string_of_nat (m div 10) = string_of_nat (n div 10)"
        and lo: "''0123456789'' ! (m mod 10) = ''0123456789'' ! (n mod 10)"
        by (simp_all add: string_of_nat_step)
      from "1.IH" [OF big_m hi] have "m div 10 = n div 10" .
      moreover from lo have "m mod 10 = n mod 10"
        by (auto dest!: digit_nth_inj [rotated 2])
      ultimately show ?thesis by (metis div_mult_mod_eq)
    qed
  qed
qed

section \<open>The name table\<close>

text \<open>
  Modelled from the spec: the class \<^verbatim>\<open>Blockly.Names\<close> behind \<^verbatim>\<open>CPP.nameDB_\<close> is
  defined in Blockly's core, outside these generator files. The table holds the reserved
  words and the names given out so far. \<^verbatim>\<open>getDistinctName(name, type)\<close> chooses a fresh name that collides with
  neither: the first of \<open>name\<close>, \<open>name2\<close>, \<open>name3\<close>, ... that is free, which it then
  records. \<^verbatim>\<open>reset()\<close> forgets the names given out.
\<close>

datatype NameType = VARIABLE | PROCEDURE | DEVELOPER_VARIABLE

record names =
  reservedDict :: "string list"
  dbReverse :: "string list"

definition taken :: "names \<Rightarrow> string list" where
  "taken db = reservedDict db @ dbReverse db"

definition candidate :: "string \<Rightarrow> nat \<Rightarrow> string" where
  "candidate name i = name @ (if i = 0 then [] else string_of_nat (Suc i))"

lemma candidate_inj: "candidate name i = candidate name j \<Longrightarrow> i = j"
  using string_of_nat_nonempty [of "Suc i"] string_of_nat_nonempty [of "Suc j"]
  by (auto simp: candidate_def split: if_splits dest: string_of_nat_inj)

lemma finite_candidates: "finite {j. candidate name j \<in> set used}"
proof -
  have "inj (candidate name)"
    by (rule injI) (rule candidate_inj)
  then have "finite (candidate name -` set used)"
    by (intro finite_vimageI) simp_all
  then show ?thesis by (simp add: vimage_def)
qed

function firstFree :: "string list \<Rightarrow> string \<Rightarrow> nat \<Rightarrow> string" where
  "firstFree used name i =
     (if candidate name i \<in> set used then firstFree used name (Suc i) else candidate name i)"
  by pat_completeness auto
termination
proof (relation "measure (\<lambda>(used, name, i). card {j. i \<le> j \<and> candidate name j \<in> set used})")
  show "wf (measure (\<lambda>(used, name, i). card {j. i \<le> j \<and> candidate name j \<in> set used}))"
    by simp
next
  fix used :: "string list" and name :: string and i :: nat
  assume hit: "candidate name i \<in> set used"
  have fin: "finite {j. i \<le> j \<and> candidate name j \<in> set used}"
    by (rule finite_subset [OF _ finite_candidates [of name used]]) auto
  have "{j. Suc i \<le> j \<and> candidate name j \<in> set used}
          \<subset> {j. i \<le> j \<and> candidate name j \<in> set used}"
    using hit by (auto simp: Suc_le_eq)
  then have "card {j. Suc i \<le> j \<and> candidate name j \<in> set used}
               < card {j. i \<le> j \<and> candidate name j \<in> set used}"
    by (rule psubset_card_mono [OF fin])
  then show "((used, name, Suc i), (used, name, i))
      \<in> measure (\<lambda>(used, name, i). card {j. i \<le> j \<and> candidate name j \<in> set used})"
    by simp
qed

declare firstFree.simps [simp del]

definition getDistinctName :: "names \<Rightarrow> string \<Rightarrow> NameType \<Rightarrow> string \<times> names" where
  "getDistinctName db name type =
     (let safeName = firstFree (taken db) name 0
      in (safeName, db\<lparr>dbReverse := safeName # dbReverse db\<rparr>))"

definition reset :: "names \<Rightarrow> names" where
  "reset db = db\<lparr>dbReverse := []\<rparr>"


section \<open>The generator object\<close>

text \<open>
  The mutable state of \<^verbatim>\<open>CPP\<close>: the settings that the rules read and the registries
  that they write. \<^verbatim>\<open>definitions_\<close> and \<^verbatim>\<open>functionNames_\<close> are dictionaries; they
  are kept as association lists in insertion order, which is the order in which
  \<^verbatim>\<open>for (name in this.definitions_)\<close> visits the keys. An identifier cannot end in
  an underscore here, so \<^verbatim>\<open>definitions_\<close>, \<^verbatim>\<open>functionNames_\<close>, \<^verbatim>\<open>nameDB_\<close>,
  \<^verbatim>\<open>provideFunction_\<close> and \<^verbatim>\<open>quote_\<close> are written without it.
\<close>

record generator =
  STATEMENT_PREFIX :: "string option"
  STATEMENT_SUFFIX :: "string option"
  INDENT :: string
  definitions :: "(string \<times> string) list"
  functionNames :: "(string \<times> string) list"
  nameDB :: names
  isInitialized :: bool

text \<open>
  The methods that \<^verbatim>\<open>CPP\<close> inherits from \<^verbatim>\<open>Blockly.Generator\<close>, and the JavaScript
  conversion \<^verbatim>\<open>String(Number(s))\<close>, are defined outside these generator files and the
  spec does not describe them. They are parameters of the rules that call them.
  \<open>injectId\<close> takes the message and the id of the block.
\<close>

record runtime =
  injectId :: "string \<Rightarrow> string \<Rightarrow> string"
  prefixLines :: "string \<Rightarrow> string \<Rightarrow> string"
  addLoopTrap :: "string \<Rightarrow> block \<Rightarrow> string"
  String_Number :: "string \<Rightarrow> string"
  Generator_finish :: "generator \<Rightarrow> string \<Rightarrow> string \<times> generator"

text \<open>\<^verbatim>\<open>CPP.definitions_[key] = text\<close>.\<close>

definition set_definition :: "string \<Rightarrow> string \<Rightarrow> generator \<Rightarrow> generator" where
  "set_definition key txt g = g\<lparr>definitions := AList.update key txt (definitions g)\<rparr>"

text \<open>
  Modelled from the spec: \<^verbatim>\<open>Generator.provideFunction_\<close> is defined in Blockly's
  core, outside these generator files. It is memoized by key: the first call registers the
  template, with its placeholder replaced by a fresh name, and returns that name; a later call with the same
  key returns the same name and registers nothing. The template is given by the text
  before and the text after its placeholder.
\<close>

definition provideFunction ::
    "generator \<Rightarrow> string \<Rightarrow> string \<times> string \<Rightarrow> string \<times> generator" where
  "provideFunction g desiredName template =
     (case map_of (functionNames g) desiredName of
        Some functionName \<Rightarrow> (functionName, g)
      | None \<Rightarrow>
          (let (functionName, db) = getDistinctName (nameDB g) desiredName PROCEDURE
           in (functionName,
               g\<lparr>definitions :=
                    AList.update desiredName (fst template @ functionName @ snd template)
                      (definitions g),
                 functionNames := AList.update desiredName functionName (functionNames g),
                 nameDB := db\<rparr>)))"


section \<open>\<^verbatim>\<open>CPP.finish\<close> and \<^verbatim>\<open>CPP.quote_\<close>\<close>

text \<open>\<^verbatim>\<open>def.match(/^import\s/)\<close>, as a truth value.\<close>

definition match_import :: "string \<Rightarrow> bool" where
  "match_import d = (take 6 d = ''import'' \<and> (case drop 6 d of [] \<Rightarrow> False | c # _ \<Rightarrow> is_space c))"

text \<open>
  The string \<^verbatim>\<open>allDefs\<close> that \<^verbatim>\<open>CPP.finish\<close> assembles in its last statement but
  one.
\<close>

definition allDefs :: "generator \<Rightarrow> string" where
  "allDefs g =
     (let imports = filter match_import (map snd (definitions g));
          definitions = filter (\<lambda>d. \<not> match_import d) (map snd (definitions g))
      in join [LF] imports @ [LF, LF] @ join [LF, LF] definitions)"

definition finish :: "runtime \<Rightarrow> generator \<Rightarrow> string \<Rightarrow> string \<times> generator" where
  "finish rt g code =
     (let code1 = (if code \<noteq> [] then prefixLines rt code (INDENT g) else code);
          code2 = ''int main() {'' @ [LF] @ code1 @ INDENT g @ ''return 0;'' @ [LF] @ ''}'';
          defs = allDefs g;
          (code3, g1) = Generator_finish rt g code2;
          g2 = g1\<lparr>isInitialized := False, nameDB := reset (nameDB g1)\<rparr>
      in (code3, g2))"

text \<open>\<^verbatim>\<open>CPP.scrubNakedValue\<close>.\<close>

definition scrubNakedValue :: "string \<Rightarrow> string" where
  "scrubNakedValue line = line @ '';'' @ [LF]"

text \<open>
  \<^verbatim>\<open>CPP.quote_\<close>: four global replacements, one after the other, then the quotes. The
  replacement text for a line feed is a backslash followed by a line feed.
\<close>

definition quote :: "string \<Rightarrow> string" where
  "quote str =
     (let s1 = replace_all BSL [BSL, BSL] str;
          s2 = replace_all LF [BSL, LF] s1;
          s3 = replace_all (CHR ''$'') [BSL, CHR ''$''] s2;
          s4 = replace_all DQ [BSL, DQ] s3
      in [DQ] @ s4 @ [DQ])"

text \<open>
  What the four replacements together do to one character, as
  \<open>replacements_escape\<close> below shows.
\<close>

definition escape_char :: "char \<Rightarrow> string" where
  "escape_char c =
     (if c = BSL \<or> c = LF \<or> c = CHR ''$'' \<or> c = DQ then [BSL, c] else [c])"

section \<open>Results of a rule\<close>

text \<open>
  A rule returns a pair \<^verbatim>\<open>[code, order]\<close> (a value block), a string (a statement
  block) or nothing; or it throws. A throw is the left summand. A rule that writes to the
  generator returns the new generator next to its result, also when it throws, since the
  writes made before the throw stay.
\<close>

datatype error = Error string | ReferenceError string | TypeError string

datatype code = Value string order | Statement string | Undefined

type_synonym result = "(error + code) \<times> generator"

text \<open>\<^verbatim>\<open>if (msg) ... CPP.injectId(msg, block)\<close>: the injected text, or nothing.\<close>

definition inject_if_set :: "runtime \<Rightarrow> string option \<Rightarrow> string \<Rightarrow> string" where
  "inject_if_set rt msg ident =
     (case msg of None \<Rightarrow> [] | Some m \<Rightarrow> if m = [] then [] else injectId rt m ident)"


section \<open>Logic rules (\<^verbatim>\<open>generators/cpp/logic.js\<close>)\<close>

text \<open>
  The statement suffix that \<^verbatim>\<open>controls_if\<close> puts in front of each branch when
  \<^verbatim>\<open>CPP.STATEMENT_SUFFIX\<close> is set.
\<close>

definition with_suffix :: "runtime \<Rightarrow> generator \<Rightarrow> block \<Rightarrow> string \<Rightarrow> string" where
  "with_suffix rt g b branchCode =
     (case STATEMENT_SUFFIX g of
        None \<Rightarrow> branchCode
      | Some m \<Rightarrow>
          if m = [] then branchCode
          else prefixLines rt (injectId rt m (blockId b)) (INDENT g) @ branchCode)"

lemma finite_IF_inputs: "finite {m. getInput b (''IF'' @ string_of_nat m)}"
proof -
  have "inj (\<lambda>m. ''IF'' @ string_of_nat m)"
    by (rule injI) (auto dest: string_of_nat_inj)
  then have "finite ((\<lambda>m. ''IF'' @ string_of_nat m) -` set (inputList b))"
    by (intro finite_vimageI) simp_all
  then show ?thesis by (simp add: vimage_def getInput_def)
qed

text \<open>The \<^verbatim>\<open>do ... while (block.getInput('IF' + n))\<close> loop; \<open>code\<close> is the text so far.\<close>

function controls_if_loop ::
    "runtime \<Rightarrow> generator \<Rightarrow> block \<Rightarrow> nat \<Rightarrow> string \<Rightarrow> string" where
  "controls_if_loop rt g b n code =
     (let conditionCode = or_str (valueToCode b (''IF'' @ string_of_nat n) ORDER_NONE) ''false'';
          branchCode = with_suffix rt g b (statementToCode b (''DO'' @ string_of_nat n));
          code1 = code @ (if n > 0 then ''else '' else []) @ ''if ('' @ conditionCode @ '') {''
                    @ [LF] @ branchCode @ ''}''
      in if getInput b (''IF'' @ string_of_nat (Suc n))
         then controls_if_loop rt g b (Suc n) code1
         else code1)"
  by pat_completeness auto
termination
proof (relation "measure (\<lambda>(rt, g, b, n, code).
                   card {m. n < m \<and> getInput b (''IF'' @ string_of_nat m)})")
  show "wf (measure (\<lambda>(rt, g, b, n, code).
              card {m. n < m \<and> getInput b (''IF'' @ string_of_nat m)}))"
    by simp
next
  fix rt :: runtime and g :: generator and b :: block and n :: nat
    and code conditionCode branchCode code1 :: string
  assume more: "getInput b (''IF'' @ string_of_nat (Suc n))"
  have fin: "finite {m. n < m \<and> getInput b (''IF'' @ string_of_nat m)}"
    by (rule finite_subset [OF _ finite_IF_inputs [of b]]) auto
  have "{m. Suc n < m \<and> getInput b (''IF'' @ string_of_nat m)}
          \<subset> {m. n < m \<and> getInput b (''IF'' @ string_of_nat m)}"
    using more by auto
  then have "card {m. Suc n < m \<and> getInput b (''IF'' @ string_of_nat m)}
               < card {m. n < m \<and> getInput b (''IF'' @ string_of_nat m)}"
    by (rule psubset_card_mono [OF fin])
  then show "((rt, g, b, Suc n, code1), (rt, g, b, n, code))
      \<in> measure (\<lambda>(rt, g, b, n, code).
           card {m. n < m \<and> getInput b (''IF'' @ string_of_nat m)})"
    by simp
qed

declare controls_if_loop.simps [simp del]

definition controls_if :: "runtime \<Rightarrow> generator \<Rightarrow> block \<Rightarrow> string" where
  "controls_if rt g b =
     (let code0 = inject_if_set rt (STATEMENT_PREFIX g) (blockId b);
          code1 = controls_if_loop rt g b 0 code0;
          code2 = (if getInput b ''ELSE'' \<or> truthy (STATEMENT_SUFFIX g)
                   then code1 @ '' else {'' @ [LF]
                          @ with_suffix rt g b (statementToCode b ''ELSE'') @ ''}''
                   else code1)
      in code2 @ [LF])"

definition logic_operation :: "block \<Rightarrow> string \<times> order" where
  "logic_operation b =
     (let operator = (if fieldValue b ''OP'' = Some ''AND'' then ''&&'' else ''||'');
          ord = (if operator = ''&&'' then ORDER_LOGICAL_AND else ORDER_LOGICAL_OR);
          argument0 = valueToCode b ''A'' ord;
          argument1 = valueToCode b ''B'' ord;
          defaultArgument = (if operator = ''&&'' then ''true'' else ''false'');
          (argument0, argument1) =
            (if argument0 = [] \<and> argument1 = [] then (''false'', ''false'')
             else (or_str argument0 defaultArgument, or_str argument1 defaultArgument))
      in (argument0 @ '' '' @ operator @ '' '' @ argument1, ord))"







section \<open>Loop rules\<close>

definition controls_repeat_ext :: "runtime \<Rightarrow> generator \<Rightarrow> block \<Rightarrow> string \<times> generator" where
  "controls_repeat_ext rt g b =
     (let repeats = (case fieldValue b ''TIMES'' of
                       Some v \<Rightarrow> String_Number rt v
                     | None \<Rightarrow> or_str (valueToCode b ''TIMES'' ORDER_ASSIGNMENT) ''0'');
          branch = addLoopTrap rt (statementToCode b ''DO'') b;
          (loopVar, db1) = getDistinctName (nameDB g) ''count'' VARIABLE;
          (endVar, code, db2) =
            (if \<not> match_word repeats \<and> \<not> isNumber repeats
             then (let (v, db) = getDistinctName db1 ''repeat_end'' VARIABLE
                   in (v, ''var '' @ v @ '' = '' @ repeats @ '';'' @ [LF], db))
             else (repeats, [], db1))
      in (code @ ''for (int '' @ loopVar @ '' = 0; '' @ loopVar @ '' < '' @ endVar @ ''; ''
            @ loopVar @ ''++) {'' @ [LF] @ branch @ ''}'' @ [LF],
          g\<lparr>nameDB := db2\<rparr>))"

definition controls_flow_statements :: "runtime \<Rightarrow> generator \<Rightarrow> block \<Rightarrow> error + string" where
  "controls_flow_statements rt g b =
     (let xfix = inject_if_set rt (STATEMENT_PREFIX g) (blockId b)
                   @ inject_if_set rt (STATEMENT_SUFFIX g) (blockId b)
                   @ (case surroundLoop b of
                        None \<Rightarrow> []
                      | Some (loopId, suppressPrefixSuffix) \<Rightarrow>
                          if suppressPrefixSuffix then []
                          else inject_if_set rt (STATEMENT_PREFIX g) loopId);
          flow = fieldValue b ''FLOW''
      in if flow = Some ''BREAK'' then Inr (xfix @ ''break;'' @ [LF])
         else if flow = Some ''CONTINUE'' then Inr (xfix @ ''continue;'' @ [LF])
         else Inl (Error ''Unknown flow statement.''))"


section \<open>Math rules\<close>



text \<open>The first \<^verbatim>\<open>switch\<close> of \<^verbatim>\<open>math_single\<close>: results that need no parentheses.\<close>

definition math_single_call :: "string option \<Rightarrow> string \<Rightarrow> string option" where
  "math_single_call operator arg =
     (if operator = Some ''ABS'' then Some (''abs('' @ arg @ '')'')
      else if operator = Some ''ROOT'' then Some (''sqrt('' @ arg @ '')'')
      else if operator = Some ''LN'' then Some (''log('' @ arg @ '')'')
      else if operator = Some ''EXP'' then Some (''exp('' @ arg @ '')'')
      else if operator = Some ''POW10'' then Some (''pow(10, '' @ arg @ '')'')
      else if operator = Some ''ROUND'' then Some (''round('' @ arg @ '')'')
      else if operator = Some ''ROUNDUP'' then Some (''ceil('' @ arg @ '')'')
      else if operator = Some ''ROUNDDOWN'' then Some (''floor('' @ arg @ '')'')
      else if operator = Some ''SIN'' then Some (''sin('' @ arg @ '' / 180 * M_PI)'')
      else if operator = Some ''COS'' then Some (''cos('' @ arg @ '' / 180 * M_PI)'')
      else if operator = Some ''TAN'' then Some (''tan('' @ arg @ '' / 180 * M_PI)'')
      else None)"

text \<open>The second \<^verbatim>\<open>switch\<close>; its \<^verbatim>\<open>default\<close> throws.\<close>

definition math_single_ratio :: "string option \<Rightarrow> string \<Rightarrow> error + string" where
  "math_single_ratio operator arg =
     (if operator = Some ''LOG10'' then Inr (''log('' @ arg @ '') / log(10)'')
      else if operator = Some ''ASIN'' then Inr (''asin('' @ arg @ '') / M_PI * 180'')
      else if operator = Some ''ACOS'' then Inr (''acos('' @ arg @ '') / M_PI * 180'')
      else if operator = Some ''ATAN'' then Inr (''atan('' @ arg @ '') / M_PI * 180'')
      else Inl (Error (''Unknown math operator: '' @ str_of_null operator)))"

definition math_single :: "generator \<Rightarrow> block \<Rightarrow> result" where
  "math_single g b =
     (let operator = fieldValue b ''OP''
      in if operator = Some ''NEG'' then
           (let arg = or_str (valueToCode b ''NUM'' ORDER_UNARY_PREFIX) ''0'';
                arg1 = (if take 1 arg = ''-'' then '' '' @ arg else arg)
            in (Inr (Value (''-'' @ arg1) ORDER_UNARY_PREFIX), g))
         else
           (let g1 = set_definition ''include_cpp_cmath'' ''#include <cmath>'' g;
                arg = (if operator = Some ''SIN'' \<or> operator = Some ''COS''
                          \<or> operator = Some ''TAN''
                       then or_str (valueToCode b ''NUM'' ORDER_MULTIPLICATIVE) ''0''
                       else or_str (valueToCode b ''NUM'' ORDER_NONE) ''0'')
            in case math_single_call operator arg of
                 Some code \<Rightarrow> (Inr (Value code ORDER_UNARY_POSTFIX), g1)
               | None \<Rightarrow>
                   (case math_single_ratio operator arg of
                      Inl e \<Rightarrow> (Inl e, g1)
                    | Inr code \<Rightarrow> (Inr (Value code ORDER_MULTIPLICATIVE), g1))))"

text \<open>The table \<^verbatim>\<open>CONSTANTS\<close> of \<^verbatim>\<open>math_constant\<close>.\<close>

definition CONSTANTS :: "string \<rightharpoonup> string \<times> order" where
  "CONSTANTS =
     [''PI'' \<mapsto> (''M_PI'', ORDER_ATOMIC),
      ''E'' \<mapsto> (''M_E'', ORDER_ATOMIC),
      ''GOLDEN_RATIO'' \<mapsto> (''(1 + sqrt(5)) / 2'', ORDER_MULTIPLICATIVE),
      ''SQRT2'' \<mapsto> (''M_SQRT2'', ORDER_ATOMIC),
      ''SQRT1_2'' \<mapsto> (''M_SQRT1_2'', ORDER_ATOMIC),
      ''INFINITY'' \<mapsto> (''INFINITY'', ORDER_ATOMIC)]"

text \<open>
  \<^verbatim>\<open>math_constant\<close> returns \<^verbatim>\<open>CONSTANTS[constant]\<close>, and \<^verbatim>\<open>constant\<close> is
  declared neither in the function nor in its module. The first argument is what the
  identifier resolves to outside the module: \<open>None\<close> if nothing declares it (the read
  then throws a ReferenceError), a string if something does. The block is not read.
\<close>

definition math_constant :: "string option \<Rightarrow> generator \<Rightarrow> block \<Rightarrow> result" where
  "math_constant outer_constant g b =
     (let g1 = set_definition ''include_cpp_cmath'' ''#include <cmath>'' g
      in case outer_constant of
           None \<Rightarrow> (Inl (ReferenceError ''constant is not defined''), g1)
         | Some constant \<Rightarrow>
             (case CONSTANTS constant of
                None \<Rightarrow> (Inr Undefined, g1)
              | Some (txt, ord) \<Rightarrow> (Inr (Value txt ord), g1)))"

text \<open>
  The rule of the same name in \<^verbatim>\<open>generators/cpp/math.js\<close>, which does read the field
  (its table has other texts).
\<close>

definition CONSTANTS_math_js :: "string \<rightharpoonup> string \<times> order" where
  "CONSTANTS_math_js =
     [''PI'' \<mapsto> (''Math.pi'', ORDER_UNARY_POSTFIX),
      ''E'' \<mapsto> (''Math.e'', ORDER_UNARY_POSTFIX),
      ''GOLDEN_RATIO'' \<mapsto> (''(1 + Math.sqrt(5)) / 2'', ORDER_MULTIPLICATIVE),
      ''SQRT2'' \<mapsto> (''Math.sqrt2'', ORDER_UNARY_POSTFIX),
      ''SQRT1_2'' \<mapsto> (''Math.sqrt1_2'', ORDER_UNARY_POSTFIX),
      ''INFINITY'' \<mapsto> (''double.infinity'', ORDER_ATOMIC)]"

definition math_constant_math_js :: "generator \<Rightarrow> block \<Rightarrow> result" where
  "math_constant_math_js g b =
     (let constant = fieldValue b ''CONSTANT'';
          g1 = (if constant \<noteq> Some ''INFINITY''
                then set_definition ''import_dart_math'' ''import 'dart:math' as Math;'' g
                else g)
      in case CONSTANTS_math_js (str_of_null constant) of
           None \<Rightarrow> (Inr Undefined, g1)
         | Some (txt, ord) \<Rightarrow> (Inr (Value txt ord), g1))"

section \<open>List rules: \<^verbatim>\<open>lists_getIndex\<close>\<close>

text \<open>\<^verbatim>\<open>'' + at\<close> for the result of \<^const>\<open>getAdjusted\<close>.\<close>

definition at_text :: "adjusted \<Rightarrow> string" where
  "at_text a = (case a of AtNumber n \<Rightarrow> string_of_int n | AtCode c \<Rightarrow> c)"

text \<open>The helper templates, each as the text before and after its placeholder.\<close>

definition lists_get_from_end :: "string \<times> string" where
  "lists_get_from_end =
     ([LF] @ ''dynamic '',
      ''(List my_list, num x) {'' @ [LF] @ ''  x = my_list.length - x;'' @ [LF]
        @ ''  return my_list[x];'' @ [LF] @ ''}'' @ [LF])"

definition lists_remove_from_end :: "string \<times> string" where
  "lists_remove_from_end =
     ([LF] @ ''dynamic '',
      ''(List my_list, num x) {'' @ [LF] @ ''  x = my_list.length - x;'' @ [LF]
        @ ''  return my_list.removeAt(x);'' @ [LF] @ ''}'' @ [LF])"

definition lists_get_random_item :: "string \<times> string" where
  "lists_get_random_item =
     ([LF] @ ''dynamic '',
      ''(List my_list) {'' @ [LF] @ ''  int x = new Math.Random().nextInt(my_list.length);''
        @ [LF] @ ''  return my_list[x];'' @ [LF] @ ''}'' @ [LF])"

definition lists_remove_random_item :: "string \<times> string" where
  "lists_remove_random_item =
     ([LF] @ ''dynamic '',
      ''(List my_list) {'' @ [LF] @ ''  int x = new Math.Random().nextInt(my_list.length);''
        @ [LF] @ ''  return my_list.removeAt(x);'' @ [LF] @ ''}'' @ [LF])"

definition import_dart_math :: "generator \<Rightarrow> generator" where
  "import_dart_math g = set_definition ''import_dart_math'' ''import 'dart:math' as Math;'' g"

definition unhandled_combination :: error where
  "unhandled_combination = Error ''Unhandled combination (lists_getIndex).''"

text \<open>
  The closure \<^verbatim>\<open>cacheList\<close>: it returns the declaration, and \<^verbatim>\<open>list\<close> becomes the
  new variable. The result is (declaration, new \<^verbatim>\<open>list\<close>, new name table).
\<close>

definition cacheList :: "names \<Rightarrow> string \<Rightarrow> string \<times> string \<times> names" where
  "cacheList db list =
     (let (listVar, db1) = getDistinctName db ''tmp_list'' VARIABLE
      in (''List '' @ listVar @ '' = '' @ list @ '';'' @ [LF], listVar, db1))"

text \<open>The branch for a list expression that must not be evaluated twice.\<close>

definition lists_getIndex_cached ::
    "generator \<Rightarrow> block \<Rightarrow> string \<Rightarrow> string \<Rightarrow> string \<Rightarrow> result" where
  "lists_getIndex_cached g b mode where' list =
     (if where' = ''RANDOM'' then
        (let g1 = import_dart_math g;
             (code, list1, db1) = cacheList (nameDB g1) list;
             (xVar, db2) = getDistinctName db1 ''tmp_x'' VARIABLE
         in (Inr (Statement
               (code @ ''int '' @ xVar @ '' = new Math.Random().nextInt('' @ list1
                  @ ''.length);'' @ [LF] @ list1 @ ''.removeAt('' @ xVar @ '');'' @ [LF])),
             g1\<lparr>nameDB := db2\<rparr>))
      else if mode = ''REMOVE'' then
        (let atv = getAdjusted b ''AT'' (Some 1) False (Some ORDER_ADDITIVE);
             (code, list1, db1) = cacheList (nameDB g) list
         in (Inr (Statement
               (code @ list1 @ ''.removeAt('' @ list1 @ ''.length'' @ '' - '' @ at_text atv
                  @ '');'' @ [LF])),
             g\<lparr>nameDB := db1\<rparr>))
      else if mode = ''GET'' then
        (let atv = getAdjusted b ''AT'' (Some 1) False None;
             (functionName, g1) = provideFunction g ''lists_get_from_end'' lists_get_from_end
         in (Inr (Value (functionName @ ''('' @ list @ '', '' @ at_text atv @ '')'')
                    ORDER_UNARY_POSTFIX), g1))
      else if mode = ''GET_REMOVE'' then
        (let atv = getAdjusted b ''AT'' (Some 1) False None;
             (functionName, g1) =
               provideFunction g ''lists_remove_from_end'' lists_remove_from_end
         in (Inr (Value (functionName @ ''('' @ list @ '', '' @ at_text atv @ '')'')
                    ORDER_UNARY_POSTFIX), g1))
      else (Inl unhandled_combination, g))"

text \<open>The \<^verbatim>\<open>switch (where)\<close> for a list that is a simple name or is needed once.\<close>

definition lists_getIndex_direct ::
    "generator \<Rightarrow> block \<Rightarrow> string \<Rightarrow> string \<Rightarrow> string \<Rightarrow> result" where
  "lists_getIndex_direct g b mode where' list =
     (if where' = ''FIRST'' then
        (if mode = ''GET'' then (Inr (Value (list @ ''.first'') ORDER_UNARY_POSTFIX), g)
         else if mode = ''GET_REMOVE'' then
           (Inr (Value (list @ ''.removeAt(0)'') ORDER_UNARY_POSTFIX), g)
         else if mode = ''REMOVE'' then (Inr (Statement (list @ ''.removeAt(0);'' @ [LF])), g)
         else (Inl unhandled_combination, g))
      else if where' = ''LAST'' then
        (if mode = ''GET'' then (Inr (Value (list @ ''.last'') ORDER_UNARY_POSTFIX), g)
         else if mode = ''GET_REMOVE'' then
           (Inr (Value (list @ ''.removeLast()'') ORDER_UNARY_POSTFIX), g)
         else if mode = ''REMOVE'' then (Inr (Statement (list @ ''.removeLast();'' @ [LF])), g)
         else (Inl unhandled_combination, g))
      else if where' = ''FROM_START'' then
        (let atv = getAdjusted b ''AT'' None False None
         in if mode = ''GET'' then
              (Inr (Value (list @ ''['' @ at_text atv @ '']'') ORDER_UNARY_POSTFIX), g)
            else if mode = ''GET_REMOVE'' then
              (Inr (Value (list @ ''.removeAt('' @ at_text atv @ '')'') ORDER_UNARY_POSTFIX), g)
            else if mode = ''REMOVE'' then
              (Inr (Statement (list @ ''.removeAt('' @ at_text atv @ '');'' @ [LF])), g)
            else (Inl unhandled_combination, g))
      else if where' = ''FROM_END'' then
        (let atv = getAdjusted b ''AT'' (Some 1) False (Some ORDER_ADDITIVE)
         in if mode = ''GET'' then
              (Inr (Value (list @ ''['' @ list @ ''.length - '' @ at_text atv @ '']'')
                      ORDER_UNARY_POSTFIX), g)
            else if mode = ''GET_REMOVE'' then
              (Inr (Value (list @ ''.removeAt('' @ list @ ''.length - '' @ at_text atv @ '')'')
                      ORDER_UNARY_POSTFIX), g)
            else if mode = ''REMOVE'' then
              (Inr (Statement
                 (list @ ''.removeAt('' @ list @ ''.length - '' @ at_text atv @ '')'' @ '';''
                    @ [LF])), g)
            else (Inl unhandled_combination, g))
      else if where' = ''RANDOM'' then
        (let g1 = import_dart_math g
         in if mode = ''REMOVE'' then
              (let (xVar, db1) = getDistinctName (nameDB g1) ''tmp_x'' VARIABLE
               in (Inr (Statement
                     (''int '' @ xVar @ '' = new Math.Random().nextInt('' @ list @ ''.length);''
                        @ [LF] @ list @ ''.removeAt('' @ xVar @ '');'' @ [LF])),
                   g1\<lparr>nameDB := db1\<rparr>))
            else if mode = ''GET'' then
              (let (functionName, g2) =
                     provideFunction g1 ''lists_get_random_item'' lists_get_random_item
               in (Inr (Value (functionName @ ''('' @ list @ '')'') ORDER_UNARY_POSTFIX), g2))
            else if mode = ''GET_REMOVE'' then
              (let (functionName, g2) =
                     provideFunction g1 ''lists_remove_random_item'' lists_remove_random_item
               in (Inr (Value (functionName @ ''('' @ list @ '')'') ORDER_UNARY_POSTFIX), g2))
            else (Inl unhandled_combination, g1))
      else (Inl unhandled_combination, g))"

definition lists_getIndex :: "generator \<Rightarrow> block \<Rightarrow> result" where
  "lists_getIndex g b =
     (let mode = or_null (fieldValue b ''MODE'') ''GET'';
          where' = or_null (fieldValue b ''WHERE'') ''FROM_START'';
          listOrder = (if where' = ''RANDOM'' \<or> where' = ''FROM_END'' then ORDER_NONE
                       else ORDER_UNARY_POSTFIX);
          list = or_str (valueToCode b ''VALUE'' listOrder) ''[]''
      in if ((where' = ''RANDOM'' \<and> mode = ''REMOVE'') \<or> where' = ''FROM_END'')
              \<and> \<not> match_word list
         then lists_getIndex_cached g b mode where' list
         else lists_getIndex_direct g b mode where' list)"

text \<open>A generator for examples: no prefix or suffix, nothing registered, no names taken.\<close>

definition empty_generator :: generator where
  "empty_generator =
     \<lparr>STATEMENT_PREFIX = None, STATEMENT_SUFFIX = None, INDENT = ''  '',
      definitions = [], functionNames = [],
      nameDB = \<lparr>reservedDict = [], dbReverse = []\<rparr>, isInitialized = True\<rparr>"

text \<open>
  Stand-ins for the driver methods, for examples: nothing is injected, a text is indented
  by putting the prefix in front of it (right for a single line), no loop trap is added,
  and the base \<^verbatim>\<open>finish\<close> returns its argument.
\<close>

definition plain_runtime :: runtime where
  "plain_runtime =
     \<lparr>injectId = (\<lambda>msg ident. msg), prefixLines = (\<lambda>txt prefix. prefix @ txt),
      addLoopTrap = (\<lambda>branch b. branch), String_Number = (\<lambda>s. s),
      Generator_finish = (\<lambda>g code. (code, g))\<rparr>"

section \<open>Examples and the spec's wording\<close>

text \<open>
  A conditional block with two conditions \<open>a\<close> and \<open>b\<close>, an else branch, and one
  statement in each branch.
\<close>

definition if_else_block :: block where
  "if_else_block =
     empty_block
       \<lparr>valueInput := [''IF0'' \<mapsto> (''a'', ORDER_ATOMIC), ''IF1'' \<mapsto> (''b'', ORDER_ATOMIC)],
        statementInput := [''DO0'' \<mapsto> ''  x;'' @ [LF], ''DO1'' \<mapsto> ''  y;'' @ [LF],
                           ''ELSE'' \<mapsto> ''  z;'' @ [LF]],
        inputList := [''IF0'', ''DO0'', ''IF1'', ''DO1'', ''ELSE'']\<rparr>"

text \<open>
  The text that the spec gives for a conditional with two conditions and an else branch:
  \<^verbatim>\<open>if (A) {\n...\n}\nelse if (B) {\n...\n}\nelse {\n...\n}\n\<close>.
\<close>

definition spec_if_else_text :: "string \<Rightarrow> string \<Rightarrow> string \<Rightarrow> string \<Rightarrow> string \<Rightarrow> string" where
  "spec_if_else_text A B s0 s1 s2 =
     ''if ('' @ A @ '') {'' @ [LF] @ s0 @ [LF] @ ''}'' @ [LF]
       @ ''else if ('' @ B @ '') {'' @ [LF] @ s1 @ [LF] @ ''}'' @ [LF]
       @ ''else {'' @ [LF] @ s2 @ [LF] @ ''}'' @ [LF]"

text \<open>
  A repeat block whose TIMES slot holds a child that produced the given text and order, and
  whose body is one statement.
\<close>

definition repeat_block :: "string \<Rightarrow> order \<Rightarrow> block" where
  "repeat_block count ord =
     empty_block\<lparr>valueInput := [''TIMES'' \<mapsto> (count, ord)],
                 statementInput := [''DO'' \<mapsto> ''  x;'' @ [LF]],
                 inputList := [''TIMES'', ''DO'']\<rparr>"

text \<open>A generator whose name table already holds some names.\<close>

definition busy_generator :: generator where
  "busy_generator =
     empty_generator\<lparr>nameDB := \<lparr>reservedDict = [''int'', ''for''], dbReverse = [''count2'', ''count'']\<rparr>\<rparr>"

text \<open>
  A \<^verbatim>\<open>lists_getIndex\<close> block with the given WHERE and MODE whose VALUE slot holds a child
  that produced the given text; the AT slot is unconnected.
\<close>

definition list_block :: "string \<Rightarrow> string \<Rightarrow> string \<Rightarrow> block" where
  "list_block where' mode e =
     empty_block\<lparr>fieldValue := [''WHERE'' \<mapsto> where', ''MODE'' \<mapsto> mode],
                 valueInput := [''VALUE'' \<mapsto> (e, ORDER_UNARY_POSTFIX)]\<rparr>"

text \<open>The operators that \<^verbatim>\<open>math_single\<close> has a case for.\<close>

definition math_single_operators :: "string list" where
  "math_single_operators =
     [''NEG'', ''ABS'', ''ROOT'', ''LN'', ''EXP'', ''POW10'', ''ROUND'', ''ROUNDUP'',
      ''ROUNDDOWN'', ''SIN'', ''COS'', ''TAN'', ''LOG10'', ''ASIN'', ''ACOS'', ''ATAN'']"

section \<open>The generated program\<close>

text \<open>
  Modelled from the spec: how the generated program runs is no part of this repository.
  The spec's single-evaluation property speaks of the generated code evaluating the
  plugged expression, checked with an expression that counts its evaluations, or by the
  structure of the code. Generated code is read here as a sequence of statements whose
  text is written by the rule except for holes, the places of the plugged expression.
  A simple statement (a declaration, a call) evaluates what stands in each of its holes
  once. A \<^verbatim>\<open>for\<close> loop that makes \<open>n\<close> iterations evaluates the holes of its
  initialiser once, those of its condition before every iteration and once more, and those
  of its step after every iteration; its body is the text of another slot.
\<close>

datatype piece = Txt string | Hole

text \<open>The text of the pieces, with \<open>e\<close> in the holes.\<close>

fun fill :: "string \<Rightarrow> piece list \<Rightarrow> string" where
  "fill e [] = []"
| "fill e (Txt s # ps) = s @ fill e ps"
| "fill e (Hole # ps) = e @ fill e ps"

fun holes :: "piece list \<Rightarrow> nat" where
  "holes [] = 0"
| "holes (Txt s # ps) = holes ps"
| "holes (Hole # ps) = Suc (holes ps)"

text \<open>A statement of the generated program.\<close>

datatype statement = Simple "piece list" | ForLoop "piece list" "piece list" "piece list" string

fun emit :: "string \<Rightarrow> statement \<Rightarrow> string" where
  "emit e (Simple ps) = fill e ps"
| "emit e (ForLoop init cond step body) =
     ''for ('' @ fill e init @ ''; '' @ fill e cond @ ''; '' @ fill e step @ '') {'' @ [LF]
       @ body @ ''}'' @ [LF]"

text \<open>
  How often the generated program evaluates the plugged expression, when every loop makes
  \<open>n\<close> iterations.
\<close>

fun loop_evaluations :: "nat \<Rightarrow> nat \<Rightarrow> nat \<Rightarrow> nat" where
  "loop_evaluations 0 c s = c"
| "loop_evaluations (Suc n) c s = c + s + loop_evaluations n c s"

fun evaluations :: "nat \<Rightarrow> statement \<Rightarrow> nat" where
  "evaluations n (Simple ps) = holes ps"
| "evaluations n (ForLoop init cond step body) =
     holes init + loop_evaluations n (holes cond) (holes step)"

definition emit_all :: "string \<Rightarrow> statement list \<Rightarrow> string" where
  "emit_all e prog = concat (map (emit e) prog)"

definition evaluations_all :: "nat \<Rightarrow> statement list \<Rightarrow> nat" where
  "evaluations_all n prog = sum_list (map (evaluations n) prog)"

text \<open>
  JavaScript numbers are doubles. An index that \<^const>\<open>getAdjusted\<close> folds is the same in
  the model, where it is an integer, as long as it stays below \<open>2\<^sup>5\<^sup>3\<close> in absolute value.
\<close>

definition exact_index :: "adjusted \<Rightarrow> bool" where
  "exact_index a = (case a of AtNumber i \<Rightarrow> \<bar>i\<bar> < 2 ^ 53 | AtCode c \<Rightarrow> True)"





section \<open>Parentheses around an adjusted index\<close>

lemmas getAdjusted_defs =
  getAdjusted_def order_or_none_def adjusted_delta_def adjusted_orders_def adjust_in_code_def
  needs_parens_def valueToCode_def or_str_def

lemma isNumber_1: "isNumber ''1''"
  by (simp add: isNumber_def is_space_def is_digit_def)

lemma not_isNumber_n: "\<not> isNumber ''n''"
  by (simp add: isNumber_def is_space_def is_digit_def)

lemma parseInt_1: "parseInt ''1'' = 1"
  by (simp add: parseInt_def is_space_def is_digit_def digit_value_def)

lemma string_of_int_1: "string_of_int 1 = ''1''"
  by (simp add: string_of_int_def string_of_nat_digit)

lemma needs_parens_Some:
  "needs_parens (Some ORDER_ADDITIVE) p = (ORDER_ADDITIVE \<le> p)"
  "needs_parens (Some ORDER_UNARY_PREFIX) p = (ORDER_UNARY_PREFIX \<le> p)"
  by (simp_all add: needs_parens_def ORDER_defs le_floor_iff)

lemma needs_parens_None: "needs_parens None p = False"
  by (simp add: needs_parens_def)

text \<open>
  Claim C1, as the code has it. The index text \<open>n\<close> read from the slot is dynamic (not a
  number). Let \<open>p\<close> be the caller's required order and \<open>q\<close> the order of the adjusted
  expression: additive when a non-zero delta \<open>d\<close> is applied, unary-prefix when the text is
  only negated. \<^verbatim>\<open>CPP.getAdjusted\<close> puts the adjusted text in parentheses if and only
  if an adjustment was made and \<open>q \<le> p\<close>. So equal orders do add parentheses, a weaker
  context (such as NONE) adds them too, and a tighter context (\<open>p < q\<close>) does not.
\<close>

theorem C1_getAdjusted_wraps_iff_order_reached:
  assumes "adjusted_delta b opt_delta = d"
    and "order_or_none opt_order = p"
    and "or_str (valueToCode b atId (fst (adjusted_orders d opt_negate p)))
           (if oneBasedIndex b then ''1'' else ''0'') = n"
    and "\<not> isNumber n"
  shows "getAdjusted b atId opt_delta opt_negate opt_order =
           AtCode (if d \<noteq> 0 \<and> ORDER_ADDITIVE \<le> p \<or> d = 0 \<and> opt_negate \<and> ORDER_UNARY_PREFIX \<le> p
                   then ''('' @ adjust_in_code n d opt_negate @ '')''
                   else adjust_in_code n d opt_negate)"
proof (cases "d \<noteq> 0")
  case True
  with assms show ?thesis
    by (simp add: getAdjusted_def adjusted_orders_def needs_parens_Some Let_def)
next
  case False
  with assms show ?thesis
    by (cases opt_negate)
       (simp_all add: getAdjusted_def adjusted_orders_def needs_parens_Some needs_parens_None
          Let_def)
qed

theorem C1_getAdjusted_wraps_witness:
  "\<not> isNumber ''n'' \<and>
   getAdjusted (index_block True ''n'' ORDER_ATOMIC) ''AT'' None False (Some ORDER_ADDITIVE)
     = AtCode ''(n - 1)''"
  using C1_getAdjusted_wraps_iff_order_reached
    [where b = "index_block True ''n'' ORDER_ATOMIC" and opt_delta = None and d = "- 1"
       and opt_order = "Some ORDER_ADDITIVE" and p = ORDER_ADDITIVE and atId = "''AT''"
       and opt_negate = False and n = "''n''"]
  by (simp add: order_or_none_def adjusted_delta_def adjusted_orders_def adjust_in_code_def
      valueToCode_def or_str_def index_block_def empty_block_def not_isNumber_n
      string_of_int_1 ORDER_defs)

text \<open>
  Claim C1 as stated (parentheses if and only if \<open>q > p\<close>, never at equal orders) fails:
  with \<open>q\<close> additive and \<open>p\<close> NONE the text is wrapped although \<open>q \<le> p\<close>; with \<open>p\<close>
  multiplicative it is not wrapped although \<open>q > p\<close>; and a negated index read at
  unary-prefix order is wrapped at equal orders.
\<close>

theorem C1_parens_iff_greater_counterexample:
  "getAdjusted (index_block True ''n'' ORDER_ATOMIC) ''AT'' None False (Some ORDER_NONE)
     = AtCode ''(n - 1)'' \<and> \<not> ORDER_ADDITIVE > ORDER_NONE \<and>
   getAdjusted (index_block True ''n'' ORDER_ATOMIC) ''AT'' None False (Some ORDER_MULTIPLICATIVE)
     = AtCode ''n - 1'' \<and> ORDER_ADDITIVE > ORDER_MULTIPLICATIVE \<and>
   getAdjusted (index_block False ''n'' ORDER_ATOMIC) ''AT'' None True (Some ORDER_UNARY_PREFIX)
     = AtCode ''(-n)''"
  by (simp add: getAdjusted_defs index_block_def empty_block_def not_isNumber_n
      string_of_int_1 ORDER_defs Let_def)

text \<open>
  Claim C2, as the code has it, under one-based indexing and a delta argument of 0 (or
  none). A slot holding the literal \<open>1\<close> gives the number 0. A slot holding a dynamic text
  \<open>n\<close> gives \<open>n - 1\<close>, in parentheses if and only if the required order is additive or
  weaker (an absent order, and the order 0, read as NONE). The orders are computed: a
  delta-adjusted index is read and compared at additive order, an index that is only negated
  at unary-prefix order, and an unadjusted one is read at the caller's order and never
  wrapped. (Under one-based indexing the delta argument 1 gives the net delta 0.)
\<close>

theorem C2_getAdjusted_one_based:
  assumes one: "oneBasedIndex b"
    and zero: "opt_delta = None \<or> opt_delta = Some 0"
  shows
    "(valueToCode b atId ORDER_ADDITIVE = ''1'' \<longrightarrow>
        getAdjusted b atId opt_delta False opt_order = AtNumber 0) \<and>
     (valueToCode b atId ORDER_ADDITIVE = n \<and> n \<noteq> [] \<and> \<not> isNumber n \<longrightarrow>
        getAdjusted b atId opt_delta False opt_order =
          AtCode (if ORDER_ADDITIVE \<le> order_or_none opt_order
                  then ''('' @ n @ '' - 1)'' else n @ '' - 1'')) \<and>
     (valueToCode b atId ORDER_UNARY_PREFIX = n \<and> n \<noteq> [] \<and> \<not> isNumber n \<longrightarrow>
        getAdjusted b atId (Some 1) True opt_order =
          AtCode (if ORDER_UNARY_PREFIX \<le> order_or_none opt_order
                  then ''(-'' @ n @ '')'' else ''-'' @ n)) \<and>
     (valueToCode b atId (order_or_none opt_order) = n \<and> n \<noteq> [] \<and> \<not> isNumber n \<longrightarrow>
        getAdjusted b atId (Some 1) False opt_order = AtCode n) \<and>
     fst (adjusted_orders d neg p) =
       (if d \<noteq> 0 then ORDER_ADDITIVE else if neg then ORDER_UNARY_PREFIX else p)"
proof -
  from one zero have d: "adjusted_delta b opt_delta = - 1"
    by (auto simp: adjusted_delta_def)
  from one have d1: "adjusted_delta b (Some 1) = 0"
    by (simp add: adjusted_delta_def)
  have literal: "getAdjusted b atId opt_delta False opt_order = AtNumber 0"
    if "valueToCode b atId ORDER_ADDITIVE = ''1''"
    using that d
    by (simp add: getAdjusted_def adjusted_orders_def or_str_def isNumber_1 parseInt_1)
  have dynamic: "getAdjusted b atId opt_delta False opt_order =
      AtCode (if ORDER_ADDITIVE \<le> order_or_none opt_order
              then ''('' @ n @ '' - 1)'' else n @ '' - 1'')"
    if "valueToCode b atId ORDER_ADDITIVE = n" "n \<noteq> []" "\<not> isNumber n"
    using that d
    by (simp add: getAdjusted_def adjusted_orders_def or_str_def needs_parens_Some
        adjust_in_code_def string_of_int_1)
  have negated: "getAdjusted b atId (Some 1) True opt_order =
      AtCode (if ORDER_UNARY_PREFIX \<le> order_or_none opt_order
              then ''(-'' @ n @ '')'' else ''-'' @ n)"
    if "valueToCode b atId ORDER_UNARY_PREFIX = n" "n \<noteq> []" "\<not> isNumber n"
    using that d1
    by (simp add: getAdjusted_def adjusted_orders_def or_str_def needs_parens_Some
        adjust_in_code_def)
  have plain: "getAdjusted b atId (Some 1) False opt_order = AtCode n"
    if "valueToCode b atId (order_or_none opt_order) = n" "n \<noteq> []" "\<not> isNumber n"
    using that d1
    by (simp add: getAdjusted_def adjusted_orders_def or_str_def needs_parens_None
        adjust_in_code_def)
  have orders: "fst (adjusted_orders d neg p) =
       (if d \<noteq> 0 then ORDER_ADDITIVE else if neg then ORDER_UNARY_PREFIX else p)"
    by (simp add: adjusted_orders_def)
  from literal dynamic negated plain orders show ?thesis by blast
qed

theorem C2_getAdjusted_one_based_witness:
  "oneBasedIndex (index_block True ''1'' ORDER_ATOMIC) \<and>
   getAdjusted (index_block True ''1'' ORDER_ATOMIC) ''AT'' (Some 0) False None = AtNumber 0 \<and>
   getAdjusted (index_block True ''n'' ORDER_ATOMIC) ''AT'' (Some 0) False (Some ORDER_SHIFT)
     = AtCode ''(n - 1)'' \<and>
   getAdjusted (index_block True ''n'' ORDER_ATOMIC) ''AT'' (Some 0) False
       (Some ORDER_MULTIPLICATIVE)
     = AtCode ''n - 1'' \<and>
   getAdjusted (index_block True ''n'' ORDER_ATOMIC) ''AT'' (Some 1) True
       (Some ORDER_MULTIPLICATIVE)
     = AtCode ''(-n)'' \<and>
   getAdjusted (index_block True ''n'' ORDER_ATOMIC) ''AT'' (Some 1) False
       (Some ORDER_MULTIPLICATIVE)
     = AtCode ''n''"
  using C2_getAdjusted_one_based
      [where b = "index_block True ''1'' ORDER_ATOMIC" and opt_delta = "Some 0"
         and atId = "''AT''" and opt_order = None and n = "''1''"]
    C2_getAdjusted_one_based
      [where b = "index_block True ''n'' ORDER_ATOMIC" and opt_delta = "Some 0"
         and atId = "''AT''" and opt_order = "Some ORDER_SHIFT" and n = "''n''"]
    C2_getAdjusted_one_based
      [where b = "index_block True ''n'' ORDER_ATOMIC" and opt_delta = "Some 0"
         and atId = "''AT''" and opt_order = "Some ORDER_MULTIPLICATIVE" and n = "''n''"]
  by (simp add: index_block_def empty_block_def valueToCode_def order_or_none_def
      not_isNumber_n ORDER_defs)

text \<open>
  Claim C2 as stated (parentheses only when the required order is numerically greater
  than additive) fails when the required order is additive itself: the text is wrapped.
\<close>

theorem C2_parens_at_additive_counterexample:
  "getAdjusted (index_block True ''n'' ORDER_ATOMIC) ''AT'' (Some 0) False (Some ORDER_ADDITIVE)
     = AtCode ''(n - 1)'' \<and> \<not> ORDER_ADDITIVE < ORDER_ADDITIVE"
  by (simp add: getAdjusted_defs index_block_def empty_block_def not_isNumber_n
      string_of_int_1 ORDER_defs Let_def)


section \<open>String literals: \<^verbatim>\<open>CPP.quote_\<close>\<close>

lemma replace_all_Nil: "replace_all c r [] = []"
  by (simp add: replace_all_def)

lemma replace_all_Cons:
  "replace_all c r (x # xs) = (if x = c then r else [x]) @ replace_all c r xs"
  by (simp add: replace_all_def)

lemma replace_all_append: "replace_all c r (xs @ ys) = replace_all c r xs @ replace_all c r ys"
  by (simp add: replace_all_def)

lemma replacements_escape:
  "replace_all DQ [BSL, DQ] (replace_all (CHR ''$'') [BSL, CHR ''$'']
     (replace_all LF [BSL, LF] (replace_all BSL [BSL, BSL] s)))
   = concat (map escape_char s)"
proof (induction s)
  case Nil
  show ?case by (simp add: replace_all_Nil)
next
  case (Cons c s)
  have "replace_all DQ [BSL, DQ] (replace_all (CHR ''$'') [BSL, CHR ''$'']
          (replace_all LF [BSL, LF] (replace_all BSL [BSL, BSL] [c]))) = escape_char c"
    by (simp add: replace_all_Cons replace_all_Nil escape_char_def)
  with Cons.IH show ?case
    using replace_all_append [of _ _ "[c]" s]
    by (simp add: replace_all_append replace_all_Cons replace_all_Nil)
qed

text \<open>
  Claim C3, on the code. \<^verbatim>\<open>CPP.quote_\<close> puts a backslash in front of every backslash,
  line feed, dollar sign and double quote, and wraps the text in double quotes. A line feed
  therefore stays a line feed in the literal, after a backslash: for the text \<open>a\<close>, line
  feed, \<open>b\<close> the literal is the six characters double quote, \<open>a\<close>, backslash, line feed,
  \<open>b\<close>, double quote. A C++ compiler removes a backslash that is followed by a line feed
  together with that line feed, so this literal denotes \<open>ab\<close>, not the text that was
  quoted.
\<close>

theorem C3_quote_keeps_line_feed:
  "quote s = [DQ] @ concat (map escape_char s) @ [DQ] \<and>
   escape_char LF = [BSL, LF] \<and>
   quote [CHR ''a'', LF, CHR ''b''] = [DQ, CHR ''a'', BSL, LF, CHR ''b'', DQ]"
  by (simp add: quote_def replacements_escape escape_char_def)


section \<open>Numeric constants: \<^verbatim>\<open>math_constant\<close>\<close>

text \<open>
  Claim C5, on the code. Nothing in the module declares \<^verbatim>\<open>constant\<close>, so for every
  block, whatever its CONSTANT field holds, the rule throws a ReferenceError after it has
  registered the include; it returns no (text, order) pair. If something outside declares
  \<^verbatim>\<open>constant\<close>, the rule returns the entry for that value, not for the block's field.
  The rule of the same name in \<^verbatim>\<open>generators/cpp/math.js\<close> reads the field.
\<close>

theorem C5_math_constant_throws:
  "fst (math_constant None g b) = Inl (ReferenceError ''constant is not defined'') \<and>
   fst (math_constant None g (empty_block\<lparr>fieldValue := [''CONSTANT'' \<mapsto> ''PI'']\<rparr>))
     \<noteq> Inr (Value ''M_PI'' ORDER_ATOMIC) \<and>
   fst (math_constant (Some ''E'') g (empty_block\<lparr>fieldValue := [''CONSTANT'' \<mapsto> ''PI'']\<rparr>))
     = Inr (Value ''M_E'' ORDER_ATOMIC) \<and>
   fst (math_constant_math_js g (empty_block\<lparr>fieldValue := [''CONSTANT'' \<mapsto> ''PI'']\<rparr>))
     = Inr (Value ''Math.pi'' ORDER_UNARY_POSTFIX)"
  by (simp add: math_constant_def math_constant_math_js_def CONSTANTS_def
      CONSTANTS_math_js_def empty_block_def str_of_null_def Let_def)


section \<open>The finished program: \<^verbatim>\<open>CPP.finish\<close>\<close>

text \<open>
  Claim C10. \<^verbatim>\<open>CPP.finish\<close> returns what the base generator's \<^verbatim>\<open>finish\<close> makes of
  the code wrapped into \<^verbatim>\<open>int main() { ... return 0; }\<close> (indented first, unless it is
  empty). The string \<^const>\<open>allDefs\<close> is computed and dropped: it is no part of what is
  returned.
\<close>

theorem C10_finish_returns_wrapped_code:
  "fst (finish rt g code) =
     fst (Generator_finish rt g
            (''int main() {'' @ [LF]
               @ (if code = [] then [] else prefixLines rt code (INDENT g))
               @ INDENT g @ ''return 0;'' @ [LF] @ ''}''))"
  by (simp add: finish_def Let_def split_def)

text \<open>
  An example: a registered include directive and a helper definition are not in the
  finished text.
\<close>

lemma finish_drops_definitions:
  "allDefs (set_definition ''include_cpp_cmath'' ''#include <cmath>'' empty_generator)
     = [LF, LF] @ ''#include <cmath>'' \<and>
   fst (finish plain_runtime
          (set_definition ''include_cpp_cmath'' ''#include <cmath>'' empty_generator)
          (''x;'' @ [LF]))
     = ''int main() {'' @ [LF] @ ''  x;'' @ [LF] @ ''  return 0;'' @ [LF] @ ''}''"
  by (simp add: finish_def allDefs_def set_definition_def empty_generator_def
      plain_runtime_def match_import_def Let_def)


section \<open>Conditionals and unconnected slots\<close>


lemma string_of_nat_small:
  "string_of_nat 0 = ''0''" "string_of_nat (Suc 0) = ''1''" "string_of_nat (Suc (Suc 0)) = ''2''"
  by (simp_all add: string_of_nat_digit)

lemma with_suffix_off: "\<not> truthy (STATEMENT_SUFFIX g) \<Longrightarrow> with_suffix rt g b code = code"
  by (auto simp: with_suffix_def truthy_def split: option.splits)

lemma inject_if_set_off: "\<not> truthy msg \<Longrightarrow> inject_if_set rt msg ident = []"
  by (auto simp: inject_if_set_def truthy_def split: option.splits)

text \<open>
  Claim C6, as the code has it. With no statement prefix or suffix configured, a
  conditional block with the inputs IF0, IF1 and ELSE (and no IF2) emits
  \<^verbatim>\<open>if (A) {\n\<close> S0 \<^verbatim>\<open>}else if (B) {\n\<close> S1 \<^verbatim>\<open>} else {\n\<close> S2 \<^verbatim>\<open>}\n\<close>, where A and B
  are the texts of the conditions (\<open>false\<close> for an unconnected one) and S0, S1, S2 the
  statement chains of the branches, each used once. Nothing separates a closing brace from
  \<open>else if\<close>, and one blank separates it from \<open>else\<close>: there is no line feed between
  them.
\<close>

theorem C6_controls_if_two_conditions_else:
  assumes "getInput b ''IF1''" and "\<not> getInput b ''IF2''" and "getInput b ''ELSE''"
    and "\<not> truthy (STATEMENT_PREFIX g)" and "\<not> truthy (STATEMENT_SUFFIX g)"
  shows "controls_if rt g b =
     ''if ('' @ or_str (valueToCode b ''IF0'' ORDER_NONE) ''false'' @ '') {'' @ [LF]
       @ statementToCode b ''DO0''
       @ ''}else if ('' @ or_str (valueToCode b ''IF1'' ORDER_NONE) ''false'' @ '') {'' @ [LF]
       @ statementToCode b ''DO1''
       @ ''} else {'' @ [LF]
       @ statementToCode b ''ELSE''
       @ ''}'' @ [LF]"
  using assms
  by (simp add: controls_if_def controls_if_loop.simps [of _ _ _ 0]
      controls_if_loop.simps [of _ _ _ "Suc 0"] string_of_nat_small with_suffix_off
      inject_if_set_off Let_def)


lemmas if_else_block_simps =
  if_else_block_def empty_block_def empty_generator_def plain_runtime_def getInput_def
  truthy_def valueToCode_def statementToCode_def or_str_def ORDER_defs

theorem C6_controls_if_witness:
  "getInput if_else_block ''IF1'' \<and> \<not> getInput if_else_block ''IF2'' \<and>
   getInput if_else_block ''ELSE'' \<and> \<not> truthy (STATEMENT_PREFIX empty_generator) \<and>
   \<not> truthy (STATEMENT_SUFFIX empty_generator) \<and>
   controls_if plain_runtime empty_generator if_else_block =
     ''if (a) {'' @ [LF] @ ''  x;'' @ [LF] @ ''}else if (b) {'' @ [LF] @ ''  y;'' @ [LF]
       @ ''} else {'' @ [LF] @ ''  z;'' @ [LF] @ ''}'' @ [LF]"
  using C6_controls_if_two_conditions_else
    [where b = if_else_block and g = empty_generator and rt = plain_runtime]
  by (simp add: if_else_block_simps)

text \<open>
  Claim C6 as stated fails: the emitted text is not the spec's text, whether the spec's
  \<open>...\<close> stands for a branch's chain without its final line feed or with it.
\<close>

theorem C6_controls_if_text_counterexample:
  "controls_if plain_runtime empty_generator if_else_block
     \<noteq> spec_if_else_text ''a'' ''b'' ''  x;'' ''  y;'' ''  z;'' \<and>
   controls_if plain_runtime empty_generator if_else_block
     \<noteq> spec_if_else_text ''a'' ''b'' (''  x;'' @ [LF]) (''  y;'' @ [LF]) (''  z;'' @ [LF])"
  by (simp add: controls_if_def controls_if_loop.simps [of _ _ _ 0]
      controls_if_loop.simps [of _ _ _ "Suc 0"] string_of_nat_small with_suffix_off
      inject_if_set_off Let_def spec_if_else_text_def if_else_block_simps)

























section \<open>Loops and fresh names\<close>

lemma firstFree_fresh: "firstFree used name i \<notin> set used"
proof (induction used name i rule: firstFree.induct)
  case (1 used name i)
  show ?case
  proof (cases "candidate name i \<in> set used")
    case True
    with "1.IH" show ?thesis by (subst firstFree.simps) simp
  next
    case False
    then show ?thesis by (subst firstFree.simps) simp
  qed
qed

lemma getDistinctName_fresh: "fst (getDistinctName db name type) \<notin> set (taken db)"
  by (simp add: getDistinctName_def firstFree_fresh Let_def)

lemma getDistinctName_recorded:
  "taken (snd (getDistinctName db name type))
     = reservedDict db @ fst (getDistinctName db name type) # dbReverse db"
  by (simp add: getDistinctName_def taken_def Let_def)

lemma getDistinctName_distinct:
  "fst (getDistinctName (snd (getDistinctName db n1 t1)) n2 t2) \<noteq> fst (getDistinctName db n1 t1)"
  using getDistinctName_fresh [of "snd (getDistinctName db n1 t1)" n2 t2]
  by (auto simp: getDistinctName_recorded)

lemma match_word_5: "match_word ''5''"
  by (simp add: match_word_def is_word_char_def)

text \<open>
  Claim C7. A repeat block whose count is the literal 5 (a number block in the TIMES slot,
  or a TIMES field that reads as 5) emits a \<open>for\<close> loop whose variable starts at 0, runs
  while it is less than 5 and is incremented by one. The variable is the name that
  \<^const>\<open>getDistinctName\<close> chooses for \<open>count\<close>: it is none of the names in the name table
  (reserved words and names given out before), and it is in the table afterwards.
\<close>

theorem C7_repeat_literal_count:
  assumes "fieldValue b ''TIMES'' = None \<and> valueInput b ''TIMES'' = Some (''5'', ORDER_ATOMIC)
           \<or> (\<exists>v. fieldValue b ''TIMES'' = Some v \<and> String_Number rt v = ''5'')"
  shows "fst (controls_repeat_ext rt g b) =
           ''for (int '' @ fst (getDistinctName (nameDB g) ''count'' VARIABLE) @ '' = 0; ''
             @ fst (getDistinctName (nameDB g) ''count'' VARIABLE) @ '' < 5; ''
             @ fst (getDistinctName (nameDB g) ''count'' VARIABLE) @ ''++) {'' @ [LF]
             @ addLoopTrap rt (statementToCode b ''DO'') b @ ''}'' @ [LF] \<and>
         fst (getDistinctName (nameDB g) ''count'' VARIABLE) \<notin> set (taken (nameDB g)) \<and>
         fst (getDistinctName (nameDB g) ''count'' VARIABLE)
           \<in> set (taken (nameDB (snd (controls_repeat_ext rt g b))))"
proof -
  from assms have repeats:
    "(case fieldValue b ''TIMES'' of
        Some v \<Rightarrow> String_Number rt v
      | None \<Rightarrow> or_str (valueToCode b ''TIMES'' ORDER_ASSIGNMENT) ''0'') = ''5''"
    by (auto simp: valueToCode_def or_str_def ORDER_defs)
  show ?thesis
    unfolding controls_repeat_ext_def repeats
    by (simp add: match_word_5 getDistinctName_fresh getDistinctName_recorded split_def
        Let_def)
qed

lemma firstFree_count:
  "firstFree [''int'', ''for'', ''count2'', ''count''] ''count'' 0 = ''count3''"
  by (simp add: firstFree.simps [of _ _ 0] firstFree.simps [of _ _ "Suc 0"]
      firstFree.simps [of _ _ "Suc (Suc 0)"] candidate_def string_of_nat_digit)

theorem C7_repeat_literal_count_witness:
  "fieldValue (repeat_block ''5'' ORDER_ATOMIC) ''TIMES'' = None \<and>
   valueInput (repeat_block ''5'' ORDER_ATOMIC) ''TIMES'' = Some (''5'', ORDER_ATOMIC) \<and>
   fst (controls_repeat_ext plain_runtime busy_generator (repeat_block ''5'' ORDER_ATOMIC)) =
     ''for (int count3 = 0; count3 < 5; count3++) {'' @ [LF] @ ''  x;'' @ [LF] @ ''}'' @ [LF] \<and>
   ''count3'' \<notin> set (taken (nameDB busy_generator))"
  using C7_repeat_literal_count
    [where b = "repeat_block ''5'' ORDER_ATOMIC" and g = busy_generator and rt = plain_runtime]
  by (simp add: repeat_block_def empty_block_def busy_generator_def empty_generator_def
      plain_runtime_def getDistinctName_def taken_def firstFree_count statementToCode_def
      Let_def)


section \<open>Unknown option values\<close>

lemma math_single_unknown:
  assumes "fieldValue b ''OP'' \<notin> Some ` set math_single_operators"
  shows "fst (math_single g b) =
           Inl (Error (''Unknown math operator: '' @ str_of_null (fieldValue b ''OP'')))"
proof -
  from assms have call: "math_single_call (fieldValue b ''OP'') arg = None" for arg
    by (simp add: math_single_call_def math_single_operators_def)
  from assms have ratio: "math_single_ratio (fieldValue b ''OP'') arg =
      Inl (Error (''Unknown math operator: '' @ str_of_null (fieldValue b ''OP'')))" for arg
    by (simp add: math_single_ratio_def math_single_operators_def)
  from assms have "fieldValue b ''OP'' \<noteq> Some ''NEG''"
    by (auto simp: math_single_operators_def)
  then show ?thesis
    by (simp add: math_single_def call ratio Let_def)
qed

lemma lists_getIndex_unknown_where:
  assumes "w \<notin> set [''FIRST'', ''LAST'', ''FROM_START'', ''FROM_END'', ''RANDOM'']"
  shows "fst (lists_getIndex_direct g b m w l) = Inl unhandled_combination"
  using assms by (simp add: lists_getIndex_direct_def)

lemma lists_getIndex_direct_unknown_mode:
  assumes "m \<notin> set [''GET'', ''GET_REMOVE'', ''REMOVE'']"
  shows "fst (lists_getIndex_direct g b m w l) = Inl unhandled_combination"
  using assms by (simp add: lists_getIndex_direct_def Let_def)

lemma lists_getIndex_cached_unknown_mode:
  assumes "m \<notin> set [''GET'', ''GET_REMOVE'', ''REMOVE'']" and "w \<noteq> ''RANDOM''"
  shows "fst (lists_getIndex_cached g b m w l) = Inl unhandled_combination"
  using assms by (simp add: lists_getIndex_cached_def Let_def)

lemma lists_getIndex_unknown:
  assumes "or_null (fieldValue b ''WHERE'') ''FROM_START''
             \<notin> set [''FIRST'', ''LAST'', ''FROM_START'', ''FROM_END'', ''RANDOM'']
           \<or> or_null (fieldValue b ''MODE'') ''GET'' \<notin> set [''GET'', ''GET_REMOVE'', ''REMOVE'']"
  shows "fst (lists_getIndex g b) = Inl (Error ''Unhandled combination (lists_getIndex).'')"
proof -
  let ?w = "or_null (fieldValue b ''WHERE'') ''FROM_START''"
  let ?m = "or_null (fieldValue b ''MODE'') ''GET''"
  from assms show ?thesis
  proof
    assume w: "?w \<notin> set [''FIRST'', ''LAST'', ''FROM_START'', ''FROM_END'', ''RANDOM'']"
    then have "?w \<noteq> ''RANDOM''" "?w \<noteq> ''FROM_END''" by auto
    with lists_getIndex_unknown_where [OF w] show ?thesis
      by (simp add: lists_getIndex_def unhandled_combination_def Let_def)
  next
    assume m: "?m \<notin> set [''GET'', ''GET_REMOVE'', ''REMOVE'']"
    then have "?m \<noteq> ''REMOVE''" by auto
    with lists_getIndex_direct_unknown_mode [OF m] lists_getIndex_cached_unknown_mode [OF m]
    show ?thesis
      by (auto simp: lists_getIndex_def unhandled_combination_def Let_def)
  qed
qed

lemma flow_unknown:
  assumes "fieldValue b ''FLOW'' \<noteq> Some ''BREAK''" and "fieldValue b ''FLOW'' \<noteq> Some ''CONTINUE''"
  shows "controls_flow_statements rt g b = Inl (Error ''Unknown flow statement.'')"
  using assms by (simp add: controls_flow_statements_def Let_def)

text \<open>
  Claim C8, as the code has it, for the three rules it names. \<^verbatim>\<open>math_single\<close> with an
  operator it has no case for throws an error that shows the operator;
  \<^verbatim>\<open>lists_getIndex\<close> with a WHERE or a MODE that it does not know throws an error that
  names the rule; \<^verbatim>\<open>controls_flow_statements\<close> with a FLOW other than BREAK and
  CONTINUE throws. (An absent or empty MODE or WHERE reads as GET or FROM_START.)
\<close>

theorem C8_unknown_option_throws:
  "(fieldValue b ''OP'' \<notin> Some ` set math_single_operators \<longrightarrow>
      fst (math_single g b) =
        Inl (Error (''Unknown math operator: '' @ str_of_null (fieldValue b ''OP'')))) \<and>
   (or_null (fieldValue b ''WHERE'') ''FROM_START''
        \<notin> set [''FIRST'', ''LAST'', ''FROM_START'', ''FROM_END'', ''RANDOM'']
      \<or> or_null (fieldValue b ''MODE'') ''GET'' \<notin> set [''GET'', ''GET_REMOVE'', ''REMOVE'']
    \<longrightarrow> fst (lists_getIndex g b) = Inl (Error ''Unhandled combination (lists_getIndex).'')) \<and>
   (fieldValue b ''FLOW'' \<noteq> Some ''BREAK'' \<and> fieldValue b ''FLOW'' \<noteq> Some ''CONTINUE'' \<longrightarrow>
      controls_flow_statements rt g b = Inl (Error ''Unknown flow statement.''))"
  using math_single_unknown [of b g] lists_getIndex_unknown [of b g] flow_unknown [of b rt g]
  by blast

theorem C8_unknown_option_witness:
  "fst (math_single empty_generator (empty_block\<lparr>fieldValue := [''OP'' \<mapsto> ''CBRT'']\<rparr>))
     = Inl (Error ''Unknown math operator: CBRT'') \<and>
   fst (lists_getIndex empty_generator (empty_block\<lparr>fieldValue := [''WHERE'' \<mapsto> ''MIDDLE'']\<rparr>))
     = Inl (Error ''Unhandled combination (lists_getIndex).'') \<and>
   controls_flow_statements plain_runtime empty_generator
       (empty_block\<lparr>fieldValue := [''FLOW'' \<mapsto> ''RETURN'']\<rparr>)
     = Inl (Error ''Unknown flow statement.'')"
  using C8_unknown_option_throws
      [where b = "empty_block\<lparr>fieldValue := [''OP'' \<mapsto> ''CBRT'']\<rparr>" and g = empty_generator]
    C8_unknown_option_throws
      [where b = "empty_block\<lparr>fieldValue := [''WHERE'' \<mapsto> ''MIDDLE'']\<rparr>" and g = empty_generator]
    C8_unknown_option_throws
      [where b = "empty_block\<lparr>fieldValue := [''FLOW'' \<mapsto> ''RETURN'']\<rparr>" and g = empty_generator
         and rt = plain_runtime]
  by (simp add: empty_block_def math_single_operators_def str_of_null_def or_null_def
      or_str_def)

text \<open>
  Claim C8 as stated, for every known block type, fails: \<^verbatim>\<open>logic_operation\<close> takes
  every OP other than AND for OR, so the unknown OP \<open>XOR\<close> silently yields the text of a
  disjunction.
\<close>

theorem C8_logic_operation_counterexample:
  "logic_operation (empty_block\<lparr>fieldValue := [''OP'' \<mapsto> ''XOR'']\<rparr>)
     = (''false || false'', ORDER_LOGICAL_OR)"
  by (simp add: logic_operation_def empty_block_def valueToCode_def Let_def)


section \<open>Expressions that are needed more than once\<close>

lemma nameDB_import_dart_math: "nameDB (import_dart_math g) = nameDB g"
  by (simp add: import_dart_math_def set_definition_def)

lemma repeat_cached:
  assumes "fieldValue b ''TIMES'' = None"
    and "valueToCode b ''TIMES'' ORDER_ASSIGNMENT = e" and "e \<noteq> []"
    and "\<not> match_word e" and "\<not> isNumber e"
    and "loopVar = fst (getDistinctName (nameDB g) ''count'' VARIABLE)"
    and "endVar = fst (getDistinctName (snd (getDistinctName (nameDB g) ''count'' VARIABLE))
                        ''repeat_end'' VARIABLE)"
  shows "fst (controls_repeat_ext rt g b) =
           ''var '' @ endVar @ '' = '' @ e @ '';'' @ [LF]
             @ ''for (int '' @ loopVar @ '' = 0; '' @ loopVar @ '' < '' @ endVar @ ''; ''
             @ loopVar @ ''++) {'' @ [LF] @ addLoopTrap rt (statementToCode b ''DO'') b
             @ ''}'' @ [LF]"
  using assms
  by (simp add: controls_repeat_ext_def or_str_def split_def Let_def)

lemma random_remove_cached:
  assumes "or_null (fieldValue b ''WHERE'') ''FROM_START'' = ''RANDOM''"
    and "or_null (fieldValue b ''MODE'') ''GET'' = ''REMOVE''"
    and "valueToCode b ''VALUE'' ORDER_NONE = e" and "e \<noteq> []" and "\<not> match_word e"
    and "listVar = fst (getDistinctName (nameDB g) ''tmp_list'' VARIABLE)"
    and "xVar = fst (getDistinctName (snd (getDistinctName (nameDB g) ''tmp_list'' VARIABLE))
                      ''tmp_x'' VARIABLE)"
  shows "fst (lists_getIndex g b) =
           Inr (Statement
             (''List '' @ listVar @ '' = '' @ e @ '';'' @ [LF]
                @ ''int '' @ xVar @ '' = new Math.Random().nextInt('' @ listVar @ ''.length);''
                @ [LF] @ listVar @ ''.removeAt('' @ xVar @ '');'' @ [LF]))"
  using assms
  by (simp add: lists_getIndex_def lists_getIndex_cached_def cacheList_def or_str_def
      nameDB_import_dart_math split_def Let_def)

lemma from_end_remove_cached:
  assumes "or_null (fieldValue b ''WHERE'') ''FROM_START'' = ''FROM_END''"
    and "or_null (fieldValue b ''MODE'') ''GET'' = ''REMOVE''"
    and "valueToCode b ''VALUE'' ORDER_NONE = e" and "e \<noteq> []" and "\<not> match_word e"
    and "listVar = fst (getDistinctName (nameDB g) ''tmp_list'' VARIABLE)"
  shows "fst (lists_getIndex g b) =
           Inr (Statement
             (''List '' @ listVar @ '' = '' @ e @ '';'' @ [LF]
                @ listVar @ ''.removeAt('' @ listVar @ ''.length - ''
                @ at_text (getAdjusted b ''AT'' (Some 1) False (Some ORDER_ADDITIVE))
                @ '');'' @ [LF]))"
  using assms
  by (simp add: lists_getIndex_def lists_getIndex_cached_def cacheList_def or_str_def
      split_def Let_def)

lemma from_end_get_helper:
  assumes "or_null (fieldValue b ''WHERE'') ''FROM_START'' = ''FROM_END''"
    and "valueToCode b ''VALUE'' ORDER_NONE = e" and "e \<noteq> []" and "\<not> match_word e"
  shows "or_null (fieldValue b ''MODE'') ''GET'' = ''GET'' \<Longrightarrow>
           fst (lists_getIndex g b) =
             Inr (Value
               (fst (provideFunction g ''lists_get_from_end'' lists_get_from_end) @ ''('' @ e
                  @ '', '' @ at_text (getAdjusted b ''AT'' (Some 1) False None) @ '')'')
               ORDER_UNARY_POSTFIX)"
    and "or_null (fieldValue b ''MODE'') ''GET'' = ''GET_REMOVE'' \<Longrightarrow>
           fst (lists_getIndex g b) =
             Inr (Value
               (fst (provideFunction g ''lists_remove_from_end'' lists_remove_from_end) @ ''(''
                  @ e @ '', '' @ at_text (getAdjusted b ''AT'' (Some 1) False None) @ '')'')
               ORDER_UNARY_POSTFIX)"
  using assms
  by (simp_all add: lists_getIndex_def lists_getIndex_cached_def or_str_def split_def Let_def)


lemma getDistinctName_second_fresh:
  "fst (getDistinctName (snd (getDistinctName db n1 t1)) n2 t2) \<notin> set (taken db)"
proof -
  have "set (taken db) \<subseteq> set (taken (snd (getDistinctName db n1 t1)))"
    by (auto simp: getDistinctName_def taken_def Let_def)
  with getDistinctName_fresh [of "snd (getDistinctName db n1 t1)" n2 t2] show ?thesis
    by blast
qed

lemma loop_evaluations_none: "loop_evaluations n 0 0 = 0"
  by (induction n) simp_all

lemma loop_evaluations_condition: "loop_evaluations n (Suc 0) 0 = Suc n"
  by (induction n) simp_all

lemma naive_bound_evaluations:
  "emit e (ForLoop [Txt ''int i = 0''] [Txt ''i < '', Hole] [Txt ''i++''] body) =
     ''for (int i = 0; i < '' @ e @ ''; i++) {'' @ [LF] @ body @ ''}'' @ [LF] \<and>
   evaluations n (ForLoop [Txt ''int i = 0''] [Txt ''i < '', Hole] [Txt ''i++''] body) = Suc n"
  by (simp add: loop_evaluations_condition)

lemma provideFunction_registered:
  assumes "\<forall>name. map_of (functionNames g) key = Some name \<longrightarrow>
             map_of (definitions g) key = Some (fst template @ name @ snd template)"
  shows "map_of (functionNames (snd (provideFunction g key template))) key
           = Some (fst (provideFunction g key template))"
    and "map_of (definitions (snd (provideFunction g key template))) key
           = Some (fst template @ fst (provideFunction g key template) @ snd template)"
  using assms
  by (auto simp: provideFunction_def AList.update_conv' split_def Let_def split: option.splits)

lemma provideFunction_fresh:
  assumes "map_of (functionNames g) key = None"
  shows "fst (provideFunction g key template) \<notin> set (taken (nameDB g))"
  using assms
  by (simp add: provideFunction_def split_def Let_def getDistinctName_fresh)


lemma getDistinctName_tables:
  "dbReverse (snd (getDistinctName db name type))
     = fst (getDistinctName db name type) # dbReverse db"
  "reservedDict (snd (getDistinctName db name type)) = reservedDict db"
  by (simp_all add: getDistinctName_def Let_def)

lemma repeat_once:
  assumes "e \<noteq> []" and "\<not> match_word e"
    and "fieldValue b ''TIMES'' = None" and "valueToCode b ''TIMES'' ORDER_ASSIGNMENT = e"
    and "\<not> isNumber e"
  shows
    "(let loopVar = fst (getDistinctName (nameDB g) ''count'' VARIABLE);
          endVar = fst (getDistinctName (snd (getDistinctName (nameDB g) ''count'' VARIABLE))
                          ''repeat_end'' VARIABLE);
          prog = [Simple [Txt (''var '' @ endVar @ '' = ''), Hole, Txt ('';'' @ [LF])],
                  ForLoop [Txt (''int '' @ loopVar @ '' = 0'')]
                    [Txt (loopVar @ '' < '' @ endVar)] [Txt (loopVar @ ''++'')]
                    (addLoopTrap rt (statementToCode b ''DO'') b)]
      in fst (controls_repeat_ext rt g b) =
           ''var '' @ endVar @ '' = '' @ e @ '';'' @ [LF]
             @ ''for (int '' @ loopVar @ '' = 0; '' @ loopVar @ '' < '' @ endVar @ ''; ''
             @ loopVar @ ''++) {'' @ [LF] @ addLoopTrap rt (statementToCode b ''DO'') b
             @ ''}'' @ [LF]
         \<and> fst (controls_repeat_ext rt g b) = emit_all e prog
         \<and> evaluations_all n prog = 1
         \<and> endVar \<notin> set (taken (nameDB g)) \<and> endVar \<noteq> loopVar
         \<and> endVar \<in> set (taken (nameDB (snd (controls_repeat_ext rt g b)))))"
proof -
  have recorded: "fst (getDistinctName (snd (getDistinctName (nameDB g) ''count'' VARIABLE))
                        ''repeat_end'' VARIABLE)
      \<in> set (taken (nameDB (snd (controls_repeat_ext rt g b))))"
    using assms
    by (simp add: controls_repeat_ext_def or_str_def split_def Let_def taken_def
        getDistinctName_tables)
  show ?thesis
    using repeat_cached [where g = g and rt = rt, OF assms(3,4,1,2,5) refl refl] recorded
      getDistinctName_second_fresh [of "nameDB g" "''count''" VARIABLE "''repeat_end''" VARIABLE]
      getDistinctName_distinct [of "nameDB g" "''count''" VARIABLE "''repeat_end''" VARIABLE]
    by (simp add: Let_def emit_all_def evaluations_all_def loop_evaluations_none)
qed

lemma random_remove_once:
  assumes "e \<noteq> []" and "\<not> match_word e"
    and "valueToCode b ''VALUE'' ORDER_NONE = e"
    and "or_null (fieldValue b ''WHERE'') ''FROM_START'' = ''RANDOM''"
    and "or_null (fieldValue b ''MODE'') ''GET'' = ''REMOVE''"
  shows
    "(let listVar = fst (getDistinctName (nameDB g) ''tmp_list'' VARIABLE);
          xVar = fst (getDistinctName (snd (getDistinctName (nameDB g) ''tmp_list'' VARIABLE))
                        ''tmp_x'' VARIABLE);
          prog = [Simple [Txt (''List '' @ listVar @ '' = ''), Hole, Txt ('';'' @ [LF])],
                  Simple [Txt (''int '' @ xVar @ '' = new Math.Random().nextInt('' @ listVar
                                 @ ''.length);'' @ [LF])],
                  Simple [Txt (listVar @ ''.removeAt('' @ xVar @ '');'' @ [LF])]]
      in fst (lists_getIndex g b) =
           Inr (Statement
             (''List '' @ listVar @ '' = '' @ e @ '';'' @ [LF]
                @ ''int '' @ xVar @ '' = new Math.Random().nextInt('' @ listVar @ ''.length);''
                @ [LF] @ listVar @ ''.removeAt('' @ xVar @ '');'' @ [LF]))
         \<and> fst (lists_getIndex g b) = Inr (Statement (emit_all e prog))
         \<and> evaluations_all n prog = 1
         \<and> listVar \<notin> set (taken (nameDB g)) \<and> xVar \<notin> set (taken (nameDB g))
         \<and> xVar \<noteq> listVar
         \<and> listVar \<in> set (taken (nameDB (snd (lists_getIndex g b)))))"
proof -
  have recorded: "fst (getDistinctName (nameDB g) ''tmp_list'' VARIABLE)
      \<in> set (taken (nameDB (snd (lists_getIndex g b))))"
    using assms
    by (simp add: lists_getIndex_def lists_getIndex_cached_def cacheList_def or_str_def
        nameDB_import_dart_math split_def Let_def taken_def getDistinctName_tables)
  show ?thesis
    using random_remove_cached [where g = g, OF assms(4,5,3,1,2) refl refl] recorded
      getDistinctName_fresh [of "nameDB g" "''tmp_list''" VARIABLE]
      getDistinctName_second_fresh [of "nameDB g" "''tmp_list''" VARIABLE "''tmp_x''" VARIABLE]
      getDistinctName_distinct [of "nameDB g" "''tmp_list''" VARIABLE "''tmp_x''" VARIABLE]
    by (simp add: Let_def emit_all_def evaluations_all_def)
qed

lemma from_end_remove_once:
  assumes "e \<noteq> []" and "\<not> match_word e"
    and "valueToCode b ''VALUE'' ORDER_NONE = e"
    and "or_null (fieldValue b ''WHERE'') ''FROM_START'' = ''FROM_END''"
    and "or_null (fieldValue b ''MODE'') ''GET'' = ''REMOVE''"
  shows
    "(let listVar = fst (getDistinctName (nameDB g) ''tmp_list'' VARIABLE);
          atv = at_text (getAdjusted b ''AT'' (Some 1) False (Some ORDER_ADDITIVE));
          prog = [Simple [Txt (''List '' @ listVar @ '' = ''), Hole, Txt ('';'' @ [LF])],
                  Simple [Txt (listVar @ ''.removeAt('' @ listVar @ ''.length - '' @ atv
                                 @ '');'' @ [LF])]]
      in fst (lists_getIndex g b) =
           Inr (Statement
             (''List '' @ listVar @ '' = '' @ e @ '';'' @ [LF]
                @ listVar @ ''.removeAt('' @ listVar @ ''.length - '' @ atv @ '');'' @ [LF]))
         \<and> fst (lists_getIndex g b) = Inr (Statement (emit_all e prog))
         \<and> evaluations_all n prog = 1
         \<and> listVar \<notin> set (taken (nameDB g))
         \<and> listVar \<in> set (taken (nameDB (snd (lists_getIndex g b)))))"
proof -
  have recorded: "fst (getDistinctName (nameDB g) ''tmp_list'' VARIABLE)
      \<in> set (taken (nameDB (snd (lists_getIndex g b))))"
    using assms
    by (simp add: lists_getIndex_def lists_getIndex_cached_def cacheList_def or_str_def
        split_def Let_def taken_def getDistinctName_tables)
  show ?thesis
    using from_end_remove_cached [where g = g, OF assms(4,5,3,1,2) refl] recorded
      getDistinctName_fresh [of "nameDB g" "''tmp_list''" VARIABLE]
    by (simp add: Let_def emit_all_def evaluations_all_def)
qed

lemma from_end_helper_once:
  assumes "e \<noteq> []" and "\<not> match_word e"
    and "valueToCode b ''VALUE'' ORDER_NONE = e"
    and "or_null (fieldValue b ''WHERE'') ''FROM_START'' = ''FROM_END''"
    and "or_null (fieldValue b ''MODE'') ''GET'' = ''GET'' \<and> key = ''lists_get_from_end''
             \<and> template = lists_get_from_end
         \<or> or_null (fieldValue b ''MODE'') ''GET'' = ''GET_REMOVE''
             \<and> key = ''lists_remove_from_end'' \<and> template = lists_remove_from_end"
  shows
    "(let functionName = fst (provideFunction g key template);
          atv = at_text (getAdjusted b ''AT'' (Some 1) False None);
          prog = [Simple [Txt (functionName @ ''(''), Hole, Txt ('', '' @ atv @ '')'')]]
      in fst (lists_getIndex g b) =
           Inr (Value (functionName @ ''('' @ e @ '', '' @ atv @ '')'') ORDER_UNARY_POSTFIX)
         \<and> fst (lists_getIndex g b) = Inr (Value (emit_all e prog) ORDER_UNARY_POSTFIX)
         \<and> evaluations_all n prog = 1
         \<and> snd (lists_getIndex g b) = snd (provideFunction g key template)
         \<and> map_of (functionNames (snd (lists_getIndex g b))) key = Some functionName
         \<and> ((\<forall>name. map_of (functionNames g) key = Some name \<longrightarrow>
                 map_of (definitions g) key = Some (fst template @ name @ snd template))
              \<longrightarrow> map_of (definitions (snd (lists_getIndex g b))) key
                    = Some (fst template @ functionName @ snd template))
         \<and> (map_of (functionNames g) key = None
              \<longrightarrow> functionName \<notin> set (taken (nameDB g))))"
proof -
  have state: "snd (lists_getIndex g b) = snd (provideFunction g key template)"
    using assms
    by (auto simp: lists_getIndex_def lists_getIndex_cached_def or_str_def split_def Let_def)
  have emitted: "fst (lists_getIndex g b) =
      Inr (Value (fst (provideFunction g key template) @ ''('' @ e @ '', ''
                    @ at_text (getAdjusted b ''AT'' (Some 1) False None) @ '')'')
             ORDER_UNARY_POSTFIX)"
    using assms from_end_get_helper [where g = g, OF assms(4,3,1,2)] by auto
  have names: "map_of (functionNames (snd (provideFunction g key template))) key
      = Some (fst (provideFunction g key template))"
    by (auto simp: provideFunction_def AList.update_conv' split_def Let_def
        split: option.splits)
  show ?thesis
    using emitted names provideFunction_registered(2) [of g key template]
      provideFunction_fresh [of g key template]
    by (simp add: state Let_def emit_all_def evaluations_all_def)
qed

text \<open>
  Claim C4, as the code has it. Let \<open>e\<close> be the text of a connected expression that is
  not a bare word. As the bound of a repeat loop (and not a number), \<open>e\<close> is bound once to
  a freshly chosen variable, which the loop then uses. As the list of
  \<^verbatim>\<open>lists_getIndex\<close>, for removal at a random position or from the end, \<open>e\<close> is bound
  once to a freshly chosen variable and every further use is that variable. For getting, or
  getting and removing, from the end no variable is bound: \<open>e\<close> is passed once, as an
  argument, to a helper function, which the rule registers under its key. In each case the
  emitted text is the given program with \<open>e\<close> in its one hole, and that program evaluates
  the hole exactly once, however many iterations the loop makes. The chosen names are
  none of the names in the name table and are recorded in it. Where the text contains a
  folded index, the index is taken to be below \<open>2\<^sup>5\<^sup>3\<close>.
\<close>

theorem C4_dynamic_expression_evaluated_once:
  assumes "e \<noteq> []" and "\<not> match_word e"
  shows
    "(fieldValue b ''TIMES'' = None \<and> valueToCode b ''TIMES'' ORDER_ASSIGNMENT = e
        \<and> \<not> isNumber e \<longrightarrow>
      (let loopVar = fst (getDistinctName (nameDB g) ''count'' VARIABLE);
           endVar = fst (getDistinctName (snd (getDistinctName (nameDB g) ''count'' VARIABLE))
                           ''repeat_end'' VARIABLE);
           prog = [Simple [Txt (''var '' @ endVar @ '' = ''), Hole, Txt ('';'' @ [LF])],
                   ForLoop [Txt (''int '' @ loopVar @ '' = 0'')]
                     [Txt (loopVar @ '' < '' @ endVar)] [Txt (loopVar @ ''++'')]
                     (addLoopTrap rt (statementToCode b ''DO'') b)]
       in fst (controls_repeat_ext rt g b) =
            ''var '' @ endVar @ '' = '' @ e @ '';'' @ [LF]
              @ ''for (int '' @ loopVar @ '' = 0; '' @ loopVar @ '' < '' @ endVar @ ''; ''
              @ loopVar @ ''++) {'' @ [LF] @ addLoopTrap rt (statementToCode b ''DO'') b
              @ ''}'' @ [LF]
          \<and> fst (controls_repeat_ext rt g b) = emit_all e prog
          \<and> evaluations_all n prog = 1
          \<and> endVar \<notin> set (taken (nameDB g)) \<and> endVar \<noteq> loopVar
          \<and> endVar \<in> set (taken (nameDB (snd (controls_repeat_ext rt g b)))))) \<and>
     (valueToCode b ''VALUE'' ORDER_NONE = e
        \<and> or_null (fieldValue b ''WHERE'') ''FROM_START'' = ''RANDOM''
        \<and> or_null (fieldValue b ''MODE'') ''GET'' = ''REMOVE'' \<longrightarrow>
      (let listVar = fst (getDistinctName (nameDB g) ''tmp_list'' VARIABLE);
           xVar = fst (getDistinctName (snd (getDistinctName (nameDB g) ''tmp_list'' VARIABLE))
                         ''tmp_x'' VARIABLE);
           prog = [Simple [Txt (''List '' @ listVar @ '' = ''), Hole, Txt ('';'' @ [LF])],
                   Simple [Txt (''int '' @ xVar @ '' = new Math.Random().nextInt('' @ listVar
                                  @ ''.length);'' @ [LF])],
                   Simple [Txt (listVar @ ''.removeAt('' @ xVar @ '');'' @ [LF])]]
       in fst (lists_getIndex g b) =
            Inr (Statement
              (''List '' @ listVar @ '' = '' @ e @ '';'' @ [LF]
                 @ ''int '' @ xVar @ '' = new Math.Random().nextInt('' @ listVar @ ''.length);''
                 @ [LF] @ listVar @ ''.removeAt('' @ xVar @ '');'' @ [LF]))
          \<and> fst (lists_getIndex g b) = Inr (Statement (emit_all e prog))
          \<and> evaluations_all n prog = 1
          \<and> listVar \<notin> set (taken (nameDB g)) \<and> xVar \<notin> set (taken (nameDB g))
          \<and> xVar \<noteq> listVar
          \<and> listVar \<in> set (taken (nameDB (snd (lists_getIndex g b)))))) \<and>
     (valueToCode b ''VALUE'' ORDER_NONE = e
        \<and> or_null (fieldValue b ''WHERE'') ''FROM_START'' = ''FROM_END''
        \<and> or_null (fieldValue b ''MODE'') ''GET'' = ''REMOVE''
        \<and> exact_index (getAdjusted b ''AT'' (Some 1) False (Some ORDER_ADDITIVE)) \<longrightarrow>
      (let listVar = fst (getDistinctName (nameDB g) ''tmp_list'' VARIABLE);
           atv = at_text (getAdjusted b ''AT'' (Some 1) False (Some ORDER_ADDITIVE));
           prog = [Simple [Txt (''List '' @ listVar @ '' = ''), Hole, Txt ('';'' @ [LF])],
                   Simple [Txt (listVar @ ''.removeAt('' @ listVar @ ''.length - '' @ atv
                                  @ '');'' @ [LF])]]
       in fst (lists_getIndex g b) =
            Inr (Statement
              (''List '' @ listVar @ '' = '' @ e @ '';'' @ [LF]
                 @ listVar @ ''.removeAt('' @ listVar @ ''.length - '' @ atv @ '');'' @ [LF]))
          \<and> fst (lists_getIndex g b) = Inr (Statement (emit_all e prog))
          \<and> evaluations_all n prog = 1
          \<and> listVar \<notin> set (taken (nameDB g))
          \<and> listVar \<in> set (taken (nameDB (snd (lists_getIndex g b)))))) \<and>
     (valueToCode b ''VALUE'' ORDER_NONE = e
        \<and> or_null (fieldValue b ''WHERE'') ''FROM_START'' = ''FROM_END''
        \<and> exact_index (getAdjusted b ''AT'' (Some 1) False None)
        \<and> (or_null (fieldValue b ''MODE'') ''GET'' = ''GET'' \<and> key = ''lists_get_from_end''
               \<and> template = lists_get_from_end
             \<or> or_null (fieldValue b ''MODE'') ''GET'' = ''GET_REMOVE''
               \<and> key = ''lists_remove_from_end'' \<and> template = lists_remove_from_end)
      \<longrightarrow>
      (let functionName = fst (provideFunction g key template);
           atv = at_text (getAdjusted b ''AT'' (Some 1) False None);
           prog = [Simple [Txt (functionName @ ''(''), Hole, Txt ('', '' @ atv @ '')'')]]
       in fst (lists_getIndex g b) =
            Inr (Value (functionName @ ''('' @ e @ '', '' @ atv @ '')'') ORDER_UNARY_POSTFIX)
          \<and> fst (lists_getIndex g b) = Inr (Value (emit_all e prog) ORDER_UNARY_POSTFIX)
          \<and> evaluations_all n prog = 1
          \<and> snd (lists_getIndex g b) = snd (provideFunction g key template)
          \<and> map_of (functionNames (snd (lists_getIndex g b))) key = Some functionName
          \<and> ((\<forall>name. map_of (functionNames g) key = Some name \<longrightarrow>
                  map_of (definitions g) key = Some (fst template @ name @ snd template))
               \<longrightarrow> map_of (definitions (snd (lists_getIndex g b))) key
                     = Some (fst template @ functionName @ snd template))
          \<and> (map_of (functionNames g) key = None
               \<longrightarrow> functionName \<notin> set (taken (nameDB g)))))"
proof (intro conjI impI, goal_cases)
  case 1
  then show ?case using assms by (intro repeat_once) simp_all
next
  case 2
  then show ?case using assms by (intro random_remove_once) simp_all
next
  case 3
  then show ?case using assms by (intro from_end_remove_once) simp_all
next
  case 4
  then show ?case using assms by (intro from_end_helper_once) simp_all
qed

lemma dynamic_call: "\<not> match_word ''f(x)''" "\<not> isNumber ''f(x)''"
  by (simp_all add: match_word_def is_word_char_def isNumber_def is_space_def is_digit_def)

lemma isNumber_0: "isNumber ''0''" "parseInt ''0'' = 0"
  by (simp_all add: isNumber_def parseInt_def is_space_def is_digit_def digit_value_def)

lemma firstFree_free: "name \<notin> set used \<Longrightarrow> firstFree used name 0 = name"
  by (simp add: firstFree.simps [of _ _ 0] candidate_def)

lemma at_default_from_end:
  "at_text (getAdjusted (list_block w m e) ''AT'' (Some 1) False opt_order) = ''1''"
  by (simp add: getAdjusted_def adjusted_delta_def adjusted_orders_def valueToCode_def
      or_str_def list_block_def empty_block_def isNumber_0 at_text_def string_of_int_1)

lemma index_default_from_end:
  "getAdjusted (list_block w m e) ''AT'' (Some 1) False opt_order = AtNumber 1"
  by (simp add: getAdjusted_def adjusted_delta_def adjusted_orders_def valueToCode_def
      or_str_def list_block_def empty_block_def isNumber_0)

theorem C4_dynamic_expression_once_witness:
  "\<not> match_word ''f(x)'' \<and>
   exact_index (getAdjusted (list_block ''FROM_END'' ''GET_REMOVE'' ''f(x)'') ''AT'' (Some 1) False
                  None) \<and>
   fst (controls_repeat_ext plain_runtime busy_generator (repeat_block ''f(x)'' ORDER_UNARY_POSTFIX))
     = ''var repeat_end = f(x);'' @ [LF]
         @ ''for (int count3 = 0; count3 < repeat_end; count3++) {'' @ [LF] @ ''  x;'' @ [LF]
         @ ''}'' @ [LF] \<and>
   fst (lists_getIndex empty_generator (list_block ''RANDOM'' ''REMOVE'' ''f(x)''))
     = Inr (Statement (''List tmp_list = f(x);'' @ [LF]
              @ ''int tmp_x = new Math.Random().nextInt(tmp_list.length);'' @ [LF]
              @ ''tmp_list.removeAt(tmp_x);'' @ [LF])) \<and>
   fst (lists_getIndex empty_generator (list_block ''FROM_END'' ''REMOVE'' ''f(x)''))
     = Inr (Statement (''List tmp_list = f(x);'' @ [LF]
              @ ''tmp_list.removeAt(tmp_list.length - 1);'' @ [LF])) \<and>
   fst (lists_getIndex empty_generator (list_block ''FROM_END'' ''GET_REMOVE'' ''f(x)''))
     = Inr (Value ''lists_remove_from_end(f(x), 1)'' ORDER_UNARY_POSTFIX) \<and>
   map_of (definitions
             (snd (lists_getIndex empty_generator (list_block ''FROM_END'' ''GET_REMOVE'' ''f(x)''))))
       ''lists_remove_from_end''
     = Some (fst lists_remove_from_end @ ''lists_remove_from_end'' @ snd lists_remove_from_end) \<and>
   evaluations_all 7
     [Simple [Txt ''lists_remove_from_end('', Hole, Txt '', 1)'']] = 1"
  using C4_dynamic_expression_evaluated_once
      [where e = "''f(x)''" and b = "repeat_block ''f(x)'' ORDER_UNARY_POSTFIX"
         and g = busy_generator and rt = plain_runtime]
    C4_dynamic_expression_evaluated_once
      [where e = "''f(x)''" and b = "list_block ''RANDOM'' ''REMOVE'' ''f(x)''"
         and g = empty_generator]
    C4_dynamic_expression_evaluated_once
      [where e = "''f(x)''" and b = "list_block ''FROM_END'' ''REMOVE'' ''f(x)''"
         and g = empty_generator]
    C4_dynamic_expression_evaluated_once
      [where e = "''f(x)''" and b = "list_block ''FROM_END'' ''GET_REMOVE'' ''f(x)''"
         and g = empty_generator and key = "''lists_remove_from_end''"
         and template = lists_remove_from_end and n = 7]
  by (simp add: dynamic_call index_default_from_end exact_index_def at_text_def
        string_of_int_1 Let_def)
     (simp add: repeat_block_def list_block_def empty_block_def busy_generator_def
      empty_generator_def plain_runtime_def valueToCode_def statementToCode_def or_null_def
      or_str_def ORDER_defs getDistinctName_def provideFunction_def taken_def firstFree_count
      firstFree_free Let_def)

text \<open>
  Claim C4 as stated fails for a list read from the end: the rule returns a call of a
  helper function, with the expression as an argument, and declares no variable.
\<close>

theorem C4_from_end_get_counterexample:
  "\<not> match_word ''f(x)'' \<and> \<not> isNumber ''f(x)'' \<and>
   fst (lists_getIndex empty_generator (list_block ''FROM_END'' ''GET'' ''f(x)''))
     = Inr (Value ''lists_get_from_end(f(x), 1)'' ORDER_UNARY_POSTFIX)"
  by (simp add: dynamic_call lists_getIndex_def lists_getIndex_cached_def at_default_from_end
      Let_def)
     (simp add: list_block_def empty_block_def empty_generator_def valueToCode_def
      or_null_def or_str_def ORDER_defs dynamic_call provideFunction_def getDistinctName_def
      taken_def firstFree_free Let_def)

end
